theory Spec2Isabelle
  imports Main "HOL-Library.Word"
begin

unbundle bit_operations_syntax

section \<open>Machine arithmetic of the interpreter\<close>

text \<open>
  The object model of \<^verbatim>\<open>spyvm/model.py\<close> computes on RPython machine integers.
  The code is written for a 32-bit word: \<^verbatim>\<open>W_LargePositiveInteger1Word\<close> keeps
  \<^verbatim>\<open>intmask(value)\<close> and rejects it in \<^verbatim>\<open>unwrap_int\<close> with "The value is negative
  when interpreted as 32bit value"; its \<^verbatim>\<open>rshift\<close> masks the bits that an arithmetic
  shift brings in when "the highest bit of self.value is set"; \<^verbatim>\<open>lshift\<close> relies on
  \<^verbatim>\<open>r_uint(-1) >> shift\<close> having its highest bit clear; and \<^verbatim>\<open>short_at0\<close> sign-extends
  a 16-bit value with \<^verbatim>\<open>intmask(r_uint(0xffff0000) | ...)\<close>. So \<^verbatim>\<open>intmask\<close> is the signed
  and \<^verbatim>\<open>r_uint\<close> the unsigned reading of the low 32 bits, and \<^verbatim>\<open>sys.maxint\<close> is
  \<open>2^31 - 1\<close>. Intermediate Python values are unbounded integers.
\<close>

datatype error =
    IndexError
  | AssertionError
  | PrimitiveFailedError
  | UnwrappingError
  | WrapperException
  | ValueError
  | OverflowError
  | BlockCannotReturnError
  | NotImplementedError
  | AttributeError
  | MemoryFault

definition intmask :: "int \<Rightarrow> int" where
  "intmask n = signed_take_bit 31 n"

definition r_uint :: "int \<Rightarrow> int" where
  "r_uint n = take_bit 32 n"

definition maxint :: int where
  "maxint = 2 ^ 31 - 1"

text \<open>\<^verbatim>\<open>ovfcheck(r)\<close>: the value if it fits the signed machine word, OverflowError otherwise.\<close>

definition ovfcheck :: "int \<Rightarrow> error + int" where
  "ovfcheck r = (if - (2 ^ 31) \<le> r \<and> r \<le> maxint then Inr r else Inl OverflowError)"

text \<open>\<^verbatim>\<open>int_between(a, b, c)\<close> of rarithmetic: \<open>a \<le> b < c\<close>.\<close>

definition int_between :: "int \<Rightarrow> int \<Rightarrow> int \<Rightarrow> bool" where
  "int_between a b c \<longleftrightarrow> a \<le> b \<and> b < c"

text \<open>
  Python list indexing \<^verbatim>\<open>xs[i]\<close> and list item assignment \<^verbatim>\<open>xs[i] = v\<close>: an index in
  \<open>[-len, 0)\<close> counts from the end, anything outside \<open>[-len, len)\<close> raises IndexError.
\<close>

definition py_index :: "nat \<Rightarrow> int \<Rightarrow> nat option" where
  "py_index n i =
     (if 0 \<le> i \<and> i < int n then Some (nat i)
      else if - int n \<le> i \<and> i < 0 then Some (nat (int n + i))
      else None)"

definition py_getitem :: "'a list \<Rightarrow> int \<Rightarrow> error + 'a" where
  "py_getitem xs i =
     (case py_index (length xs) i of None \<Rightarrow> Inl IndexError | Some j \<Rightarrow> Inr (xs ! j))"

definition py_setitem :: "'a list \<Rightarrow> int \<Rightarrow> 'a \<Rightarrow> error + 'a list" where
  "py_setitem xs i v =
     (case py_index (length xs) i of None \<Rightarrow> Inl IndexError | Some j \<Rightarrow> Inr (xs[j := v]))"

section \<open>The object space, as far as the model calls it\<close>

text \<open>
  The object space (\<^verbatim>\<open>spyvm/objspace.py\<close>) is a collaborator of the classes modelled
  here and is not modelled itself. The model calls its wrapping functions, so they are
  parameters of every function that takes \<^verbatim>\<open>space\<close>, and so are
  its flag \<^verbatim>\<open>uses_block_contexts\<close> and the instance size of the class MethodContext,
  which the space's class shadow reports.
\<close>

record 'w objspace =
  w_nil :: 'w
  wrap_int :: "int \<Rightarrow> 'w"
  wrap_uint :: "int \<Rightarrow> 'w"
  wrap_positive_32bit_int :: "int \<Rightarrow> 'w"
  unwrap_int :: "'w \<Rightarrow> error + int"
  unwrap_uint :: "'w \<Rightarrow> error + int"
  uses_block_contexts :: bool
  MethodContext_instsize :: int

section \<open>W_SmallInteger\<close>

record W_SmallInteger =
  si_value :: int

text \<open>\<^verbatim>\<open>W_SmallInteger.__init__\<close>: \<^verbatim>\<open>self.value = intmask(value)\<close>.\<close>

definition W_SmallInteger_init :: "int \<Rightarrow> W_SmallInteger" where
  "W_SmallInteger_init v = \<lparr>si_value = intmask v\<rparr>"

text \<open>
  \<^verbatim>\<open>W_SmallInteger.lshift(self, space, shift)\<close>. Python's shift operators raise ValueError
  on a negative count; otherwise \<^verbatim>\<open><<\<close> is \<open>push_bit\<close> and \<^verbatim>\<open>>>\<close> is \<open>drop_bit\<close>
  on unbounded integers.
\<close>

definition SmallInteger_lshift :: "'w objspace \<Rightarrow> W_SmallInteger \<Rightarrow> int \<Rightarrow> error + 'w" where
  "SmallInteger_lshift space self shift =
     (if shift < 0 then Inl ValueError
      else
        let upperbound = intmask (drop_bit (nat shift) (r_uint (- 1))) in
        if 0 \<le> si_value self \<and> si_value self \<le> upperbound then
          let shifted = intmask (push_bit (nat shift) (si_value self))
          in Inr (wrap_positive_32bit_int space shifted)
        else
          (case ovfcheck (push_bit (nat shift) (si_value self)) of
             Inl _ \<Rightarrow> Inl PrimitiveFailedError
           | Inr shifted \<Rightarrow> Inr (wrap_int space shifted)))"

section \<open>Identity hashes\<close>

text \<open>
  \<^verbatim>\<open>W_AbstractObjectWithIdentityHash\<close> shares one \<^verbatim>\<open>rrandom.Random()\<close> between all
  objects. The generator is a library of RPython; here it is any stream of 32-bit words
  together with the position of the next draw.
\<close>

record hash_generator =
  stream :: "nat \<Rightarrow> 32 word"
  drawn :: nat

definition genrand32 :: "hash_generator \<Rightarrow> 32 word \<times> hash_generator" where
  "genrand32 g = (stream g (drawn g), g\<lparr>drawn := Suc (drawn g)\<rparr>)"

definition UNASSIGNED_HASH :: int where
  "UNASSIGNED_HASH = maxint"

record W_AbstractObjectWithIdentityHash =
  hash :: int

text \<open>A new object has the class attribute \<^verbatim>\<open>hash = UNASSIGNED_HASH\<close>.\<close>

definition fresh_object :: W_AbstractObjectWithIdentityHash where
  "fresh_object = \<lparr>hash = UNASSIGNED_HASH\<rparr>"

text \<open>
  \<^verbatim>\<open>gethash\<close> returns the hash and leaves the generator and the object as they are after
  the call. Python's \<^verbatim>\<open>//\<close> rounds towards minus infinity, as \<open>div\<close> does.
\<close>

definition gethash ::
  "hash_generator \<Rightarrow> 'a W_AbstractObjectWithIdentityHash_scheme
     \<Rightarrow> int \<times> hash_generator \<times> 'a W_AbstractObjectWithIdentityHash_scheme" where
  "gethash g self =
     (if hash self = UNASSIGNED_HASH then
        (case genrand32 g of (r, g') \<Rightarrow>
           let h = intmask (uint r) div 2 in (h, g', self\<lparr>hash := h\<rparr>))
      else (hash self, g, self))"

section \<open>The representation kinds\<close>

text \<open>
  One record per class of \<^verbatim>\<open>model.py\<close>, extended along the class hierarchy. \<open>'w\<close> is the
  type of object references. The attributes \<^verbatim>\<open>c_bytes\<close> and \<^verbatim>\<open>c_words\<close> are listed in
  \<^verbatim>\<open>_attrs_\<close>, but no constructor assigns them and their classes give them no default:
  until \<^verbatim>\<open>convert_to_c_layout\<close> assigns the buffer the attribute does not exist, and
  reading it raises AttributeError. Such an attribute is \<open>None\<close> here until it is assigned.
  The \<^verbatim>\<open>version\<close> tokens of byte objects and methods are fresh objects without data,
  read only by the JIT; they are left out.
\<close>

record W_LargePositiveInteger1Word = W_AbstractObjectWithIdentityHash +
  lpi_value :: int
  exposed_size :: int

text \<open>A float is its IEEE 754 double bit pattern.\<close>

record W_Float = W_AbstractObjectWithIdentityHash +
  float_value :: "64 word"

record 'w W_AbstractObjectWithClassReference = W_AbstractObjectWithIdentityHash +
  w_class :: "'w option"

type_synonym 'w W_PointersObjectNoFields = "'w W_AbstractObjectWithClassReference"

record 'w W_SmallPointersObject = "'w W_AbstractObjectWithClassReference" +
  sp_size :: int
  f1 :: 'w
  f2 :: 'w
  f3 :: 'w
  f4 :: 'w

record 'w W_BytesObject = "'w W_AbstractObjectWithClassReference" +
  bytes :: "char list option"
  c_bytes :: "char list option"
  bytes_size :: int

record 'w W_WordsObject = "'w W_AbstractObjectWithClassReference" +
  words :: "int list option"
  c_words :: "int list option"
  words_size :: int

record 'w W_CompiledMethod = W_AbstractObjectWithIdentityHash +
  header :: int
  primitive :: int
  literalsize :: int
  islarge :: bool
  tempsize :: int
  argsize :: int
  method_bytes :: "char list"
  literals :: "'w list"
  lookup_selector :: string
  compiledin_class :: "'w option"
  lookup_class :: "'w option"

subsection \<open>W_LargePositiveInteger1Word\<close>

text \<open>Python's \<^verbatim>\<open>x >> n\<close> and \<^verbatim>\<open>x << n\<close> on unbounded integers.\<close>

definition py_rshift :: "int \<Rightarrow> int \<Rightarrow> error + int" where
  "py_rshift x n = (if n < 0 then Inl ValueError else Inr (drop_bit (nat n) x))"

definition py_lshift :: "int \<Rightarrow> int \<Rightarrow> error + int" where
  "py_lshift x n = (if n < 0 then Inl ValueError else Inr (push_bit (nat n) x))"

definition LargePositiveInteger1Word_init :: "int \<Rightarrow> int \<Rightarrow> W_LargePositiveInteger1Word" where
  "LargePositiveInteger1Word_init v sz =
     \<lparr>hash = UNASSIGNED_HASH, lpi_value = intmask v, exposed_size = sz\<rparr>"

definition LargePositiveInteger1Word_size :: "W_LargePositiveInteger1Word \<Rightarrow> int" where
  "LargePositiveInteger1Word_size self = exposed_size self"

definition LargePositiveInteger1Word_at0 ::
  "'w objspace \<Rightarrow> W_LargePositiveInteger1Word \<Rightarrow> int \<Rightarrow> error + 'w" where
  "LargePositiveInteger1Word_at0 space self index0 =
     (let shift = index0 * 8 in
      case py_rshift (lpi_value self) shift of
        Inl e \<Rightarrow> Inl e
      | Inr shifted \<Rightarrow> let result = shifted AND 255 in Inr (wrap_int space (intmask result)))"

definition LargePositiveInteger1Word_atput0 ::
  "'w objspace \<Rightarrow> W_LargePositiveInteger1Word \<Rightarrow> int \<Rightarrow> 'w
     \<Rightarrow> error + W_LargePositiveInteger1Word" where
  "LargePositiveInteger1Word_atput0 space self index0 w_byte =
     (if index0 \<ge> LargePositiveInteger1Word_size self then Inl IndexError
      else
        let skew = index0 * 8 in
        case unwrap_int space w_byte of
          Inl e \<Rightarrow> Inl e
        | Inr byte \<Rightarrow>
            if \<not> byte \<le> 255 then Inl AssertionError
            else
              (case py_lshift 255 skew of
                 Inl e \<Rightarrow> Inl e
               | Inr m \<Rightarrow>
                   let new_value = r_uint (lpi_value self) AND r_uint (NOT m);
                       new_value = new_value OR r_uint (push_bit (nat skew) byte)
                   in Inr (self\<lparr>lpi_value := intmask new_value\<rparr>)))"

subsection \<open>W_SmallPointersObject\<close>

definition SmallPointersObject_init :: "'w objspace \<Rightarrow> 'w option \<Rightarrow> int \<Rightarrow> 'w W_SmallPointersObject" where
  "SmallPointersObject_init space cls sz =
     \<lparr>hash = UNASSIGNED_HASH, w_class = cls, sp_size = sz,
      f1 = w_nil space, f2 = w_nil space, f3 = w_nil space, f4 = w_nil space\<rparr>"

definition SmallPointersObject_size :: "'w W_SmallPointersObject \<Rightarrow> int" where
  "SmallPointersObject_size self = sp_size self"

definition SmallPointersObject_fetch :: "'w W_SmallPointersObject \<Rightarrow> int \<Rightarrow> error + 'w" where
  "SmallPointersObject_fetch self index0 =
     (if \<not> int_between 0 index0 (SmallPointersObject_size self) then Inl IndexError
      else if index0 = 0 then Inr (f1 self)
      else if index0 = 1 then Inr (f2 self)
      else if index0 = 2 then Inr (f3 self)
      else if index0 = 3 then Inr (f4 self)
      else Inl IndexError)"

definition SmallPointersObject_store ::
  "'w W_SmallPointersObject \<Rightarrow> int \<Rightarrow> 'w \<Rightarrow> error + 'w W_SmallPointersObject" where
  "SmallPointersObject_store self index0 w_value =
     (if \<not> int_between 0 index0 (SmallPointersObject_size self) then Inl IndexError
      else if index0 = 0 then Inr (self\<lparr>f1 := w_value\<rparr>)
      else if index0 = 1 then Inr (self\<lparr>f2 := w_value\<rparr>)
      else if index0 = 2 then Inr (self\<lparr>f3 := w_value\<rparr>)
      else if index0 = 3 then Inr (self\<lparr>f4 := w_value\<rparr>)
      else Inl IndexError)"

subsection \<open>W_BytesObject\<close>

text \<open>
  \<^verbatim>\<open>self.c_bytes[i]\<close> and \<^verbatim>\<open>self.c_words[i]\<close>: reading the attribute before it was
  assigned raises AttributeError. The raw C buffer itself is indexed without any check; a
  read or write outside it is a memory fault.
\<close>

definition raw_getitem :: "'a list option \<Rightarrow> int \<Rightarrow> error + 'a" where
  "raw_getitem buf i =
     (case buf of
        None \<Rightarrow> Inl AttributeError
      | Some xs \<Rightarrow> if 0 \<le> i \<and> i < int (length xs) then Inr (xs ! nat i) else Inl MemoryFault)"

definition raw_setitem :: "'a list option \<Rightarrow> int \<Rightarrow> 'a \<Rightarrow> error + 'a list" where
  "raw_setitem buf i v =
     (case buf of
        None \<Rightarrow> Inl AttributeError
      | Some xs \<Rightarrow> if 0 \<le> i \<and> i < int (length xs) then Inr (xs[nat i := v]) else Inl MemoryFault)"

definition py_ord :: "char \<Rightarrow> int" where
  "py_ord c = int (of_char c)"

definition py_chr :: "int \<Rightarrow> error + char" where
  "py_chr i = (if 0 \<le> i \<and> i < 256 then Inr (char_of i) else Inl ValueError)"

definition BytesObject_init :: "'w option \<Rightarrow> nat \<Rightarrow> 'w W_BytesObject" where
  "BytesObject_init cls sz =
     \<lparr>hash = UNASSIGNED_HASH, w_class = cls,
      bytes = Some (replicate sz (CHR 0x00)), c_bytes = None, bytes_size = int sz\<rparr>"

definition BytesObject_size :: "'w W_BytesObject \<Rightarrow> int" where
  "BytesObject_size self = bytes_size self"

definition getchar :: "'w W_BytesObject \<Rightarrow> int \<Rightarrow> error + char" where
  "getchar self n0 =
     (case bytes self of
        None \<Rightarrow> if n0 \<ge> bytes_size self then Inl IndexError else raw_getitem (c_bytes self) n0
      | Some bs \<Rightarrow> py_getitem bs n0)"

definition setchar :: "'w W_BytesObject \<Rightarrow> int \<Rightarrow> char \<Rightarrow> error + 'w W_BytesObject" where
  "setchar self n0 character =
     (case bytes self of
        None \<Rightarrow>
          (case raw_setitem (c_bytes self) n0 character of
             Inl e \<Rightarrow> Inl e | Inr cs \<Rightarrow> Inr (self\<lparr>c_bytes := Some cs\<rparr>))
      | Some bs \<Rightarrow>
          (case py_setitem bs n0 character of
             Inl e \<Rightarrow> Inl e | Inr bs' \<Rightarrow> Inr (self\<lparr>bytes := Some bs'\<rparr>)))"

definition BytesObject_at0 :: "'w objspace \<Rightarrow> 'w W_BytesObject \<Rightarrow> int \<Rightarrow> error + 'w" where
  "BytesObject_at0 space self index0 =
     (case getchar self index0 of Inl e \<Rightarrow> Inl e | Inr c \<Rightarrow> Inr (wrap_int space (py_ord c)))"

definition BytesObject_atput0 ::
  "'w objspace \<Rightarrow> 'w W_BytesObject \<Rightarrow> int \<Rightarrow> 'w \<Rightarrow> error + 'w W_BytesObject" where
  "BytesObject_atput0 space self index0 w_value =
     (case unwrap_int space w_value of
        Inl e \<Rightarrow> Inl e
      | Inr i \<Rightarrow> (case py_chr i of Inl e \<Rightarrow> Inl e | Inr c \<Rightarrow> setchar self index0 c))"

text \<open>\<^verbatim>\<open>has_same_chars\<close>: the loop over \<^verbatim>\<open>range(size)\<close>, leaving at the first difference.\<close>

fun has_same_chars_loop :: "'w W_BytesObject \<Rightarrow> 'w W_BytesObject \<Rightarrow> nat list \<Rightarrow> error + bool" where
  "has_same_chars_loop self other [] = Inr True"
| "has_same_chars_loop self other (i # rest) =
     (case getchar self (int i) of
        Inl e \<Rightarrow> Inl e
      | Inr c \<Rightarrow>
          (case getchar other (int i) of
             Inl e \<Rightarrow> Inl e
           | Inr d \<Rightarrow> if c \<noteq> d then Inr False else has_same_chars_loop self other rest))"

definition has_same_chars :: "'w W_BytesObject \<Rightarrow> 'w W_BytesObject \<Rightarrow> int \<Rightarrow> error + bool" where
  "has_same_chars self other sz = has_same_chars_loop self other [0..<nat sz]"

subsection \<open>W_WordsObject\<close>

definition WordsObject_init :: "'w option \<Rightarrow> nat \<Rightarrow> 'w W_WordsObject" where
  "WordsObject_init cls sz =
     \<lparr>hash = UNASSIGNED_HASH, w_class = cls,
      words = Some (replicate sz (r_uint 0)), c_words = None, words_size = int sz\<rparr>"

definition WordsObject_size :: "'w W_WordsObject \<Rightarrow> int" where
  "WordsObject_size self = words_size self"

definition getword :: "'w W_WordsObject \<Rightarrow> int \<Rightarrow> error + int" where
  "getword self n =
     (if \<not> (WordsObject_size self > n \<and> n \<ge> 0) then Inl AssertionError
      else case words self of
        None \<Rightarrow> (case raw_getitem (c_words self) n of Inl e \<Rightarrow> Inl e | Inr w \<Rightarrow> Inr (r_uint w))
      | Some ws \<Rightarrow> py_getitem ws n)"

definition setword :: "'w W_WordsObject \<Rightarrow> int \<Rightarrow> int \<Rightarrow> error + 'w W_WordsObject" where
  "setword self n word =
     (case words self of
        None \<Rightarrow>
          (case raw_setitem (c_words self) n (intmask word) of
             Inl e \<Rightarrow> Inl e | Inr cs \<Rightarrow> Inr (self\<lparr>c_words := Some cs\<rparr>))
      | Some ws \<Rightarrow>
          (case py_setitem ws n (r_uint word) of
             Inl e \<Rightarrow> Inl e | Inr ws' \<Rightarrow> Inr (self\<lparr>words := Some ws'\<rparr>)))"

definition WordsObject_at0 :: "'w objspace \<Rightarrow> 'w W_WordsObject \<Rightarrow> int \<Rightarrow> error + 'w" where
  "WordsObject_at0 space self index0 =
     (case getword self index0 of Inl e \<Rightarrow> Inl e | Inr val \<Rightarrow> Inr (wrap_uint space val))"

definition WordsObject_atput0 ::
  "'w objspace \<Rightarrow> 'w W_WordsObject \<Rightarrow> int \<Rightarrow> 'w \<Rightarrow> error + 'w W_WordsObject" where
  "WordsObject_atput0 space self index0 w_value =
     (case unwrap_uint space w_value of
        Inl e \<Rightarrow> Inl e
      | Inr word \<Rightarrow> setword self index0 word)"

section \<open>Storage strategies and generic slotted objects\<close>

text \<open>
  The strategy classes that \<^verbatim>\<open>storage.py\<close> declares with \<^verbatim>\<open>@rstrat.strategy\<close> are
  singletons without state of their own; the slots live in the \<^verbatim>\<open>_storage\<close> field of the
  object. A shadow is a strategy object of its own, bound to one object through its
  \<^verbatim>\<open>_w_self\<close> back-reference; \<open>Shadow k\<close> is the shadow with identity \<open>k\<close>.
\<close>

datatype strategy =
    AllNilStrategy
  | SmallIntegerOrNilStrategy
  | FloatOrNilStrategy
  | ListStrategy
  | WeakListStrategy
  | Shadow nat

datatype 'w ListEntry = StrongListEntry 'w | WeakListEntry 'w

datatype 'w storage =
    NoStorage
  | SingleValueStrategyStorage int
  | IntStorage "int list"
  | FloatStorage "64 word list"
  | ListStorage "'w list"
  | WeakStorage "'w ListEntry list"

record 'w W_GenericPointersObject = "'w W_AbstractObjectWithClassReference" +
  strategy :: "strategy option"
  storage :: "'w storage"

section \<open>Object memory\<close>

text \<open>
  Objects have identity and are mutated in place, so they live in a store indexed by
  address; \<^verbatim>\<open>a is b\<close> compares addresses. The store also keeps the back-reference
  \<^verbatim>\<open>_w_self\<close> of every shadow.
\<close>

type_synonym addr = nat

datatype 'w w_object =
    SmallInteger W_SmallInteger
  | LargePositiveInteger1Word W_LargePositiveInteger1Word
  | Float W_Float
  | PointersObjectNoFields "'w W_PointersObjectNoFields"
  | SmallPointersObject "'w W_SmallPointersObject"
  | GenericPointersObject "'w W_GenericPointersObject"
  | BytesObject "'w W_BytesObject"
  | WordsObject "'w W_WordsObject"
  | CompiledMethod "'w W_CompiledMethod"

datatype pyclass =
    W_SmallInteger_class
  | W_LargePositiveInteger1Word_class
  | W_Float_class
  | W_PointersObjectNoFields_class
  | W_SmallPointersObject_class
  | W_GenericPointersObject_class
  | W_BytesObject_class
  | W_WordsObject_class
  | W_CompiledMethod_class

fun class_of :: "'w w_object \<Rightarrow> pyclass" where
  "class_of (SmallInteger _) = W_SmallInteger_class"
| "class_of (LargePositiveInteger1Word _) = W_LargePositiveInteger1Word_class"
| "class_of (Float _) = W_Float_class"
| "class_of (PointersObjectNoFields _) = W_PointersObjectNoFields_class"
| "class_of (SmallPointersObject _) = W_SmallPointersObject_class"
| "class_of (GenericPointersObject _) = W_GenericPointersObject_class"
| "class_of (BytesObject _) = W_BytesObject_class"
| "class_of (WordsObject _) = W_WordsObject_class"
| "class_of (CompiledMethod _) = W_CompiledMethod_class"

record 'w heap =
  objects :: "addr \<rightharpoonup> 'w w_object"
  shadows :: "nat \<Rightarrow> addr option"

subsection \<open>is_same_object\<close>

text \<open>
  Float comparison on bit patterns: a NaN has all exponent bits set and a non-zero
  fraction; \<^verbatim>\<open>==\<close> holds between equal patterns that are not NaN and between the two
  zeros.
\<close>

definition isnan :: "64 word \<Rightarrow> bool" where
  "isnan w \<longleftrightarrow> take_bit 11 (drop_bit 52 w) = mask 11 \<and> take_bit 52 w \<noteq> 0"

definition float_eq :: "64 word \<Rightarrow> 64 word \<Rightarrow> bool" where
  "float_eq x y \<longleftrightarrow>
     \<not> isnan x \<and> \<not> isnan y \<and> (x = y \<or> (take_bit 63 x = 0 \<and> take_bit 63 y = 0))"

definition SmallInteger_is_same_object :: "W_SmallInteger \<Rightarrow> 'w w_object \<Rightarrow> bool" where
  "SmallInteger_is_same_object self other =
     (case other of SmallInteger o' \<Rightarrow> si_value self = si_value o' | _ \<Rightarrow> False)"

definition Float_is_same_object :: "W_Float \<Rightarrow> 'w w_object \<Rightarrow> bool" where
  "Float_is_same_object self other =
     (case other of
        Float o' \<Rightarrow>
          float_eq (float_value self) (float_value o')
          \<or> (isnan (float_value self) \<and> isnan (float_value o'))
      | _ \<Rightarrow> False)"

definition BytesObject_is_same_object ::
  "addr \<Rightarrow> 'w W_BytesObject \<Rightarrow> addr \<Rightarrow> 'w w_object \<Rightarrow> error + bool" where
  "BytesObject_is_same_object a self b other =
     (if a = b then Inr True
      else case other of
        BytesObject o' \<Rightarrow>
          let sz = BytesObject_size self in
          if sz \<noteq> BytesObject_size o' then Inr False
          else if sz > 256 \<and> bytes self \<noteq> None \<and> bytes o' \<noteq> None
            then Inr (bytes self = bytes o')
          else has_same_chars self o' sz
      | _ \<Rightarrow> Inr False)"

definition is_same_object :: "'w heap \<Rightarrow> addr \<Rightarrow> addr \<Rightarrow> error + bool" where
  "is_same_object h a b =
     (case (objects h a, objects h b) of
        (Some x, Some y) \<Rightarrow>
          (case x of
             SmallInteger s \<Rightarrow> Inr (SmallInteger_is_same_object s y)
           | Float f \<Rightarrow> Inr (Float_is_same_object f y)
           | BytesObject s \<Rightarrow> BytesObject_is_same_object a s b y
           | _ \<Rightarrow> Inr (a = b))
      | _ \<Rightarrow> Inl MemoryFault)"

subsection \<open>become\<close>

definition can_become :: "'w w_object \<Rightarrow> 'w w_object \<Rightarrow> bool" where
  "can_become self w_other \<longleftrightarrow> class_of self = class_of w_other"

text \<open>
  \<^verbatim>\<open>ShadowMixin.become\<close> of the shadow \<open>sh\<close>, with \<open>b\<close> the address of \<^verbatim>\<open>w_other\<close>:
  the shadow is rebound to \<^verbatim>\<open>w_other\<close>, and when \<^verbatim>\<open>w_other\<close> has a shadow too, that one
  is rebound to the object the first shadow belonged to.
\<close>

definition ShadowMixin_become ::
  "'w heap \<Rightarrow> nat \<Rightarrow> addr \<Rightarrow> 'w W_GenericPointersObject \<Rightarrow> 'w heap" where
  "ShadowMixin_become h sh b w_other =
     (let w_self = shadows h sh;
          h1 = h\<lparr>shadows := (shadows h)(sh := Some b)\<rparr>
      in case strategy w_other of
           Some (Shadow sh2) \<Rightarrow> h1\<lparr>shadows := (shadows h1)(sh2 := w_self)\<rparr>
         | _ \<Rightarrow> h1)"

definition handles_become :: "strategy \<Rightarrow> bool" where
  "handles_become s = (case s of Shadow _ \<Rightarrow> True | _ \<Rightarrow> False)"

text \<open>
  The \<^verbatim>\<open>_become\<close> methods. Each exchanges the fields of its class and calls the
  \<^verbatim>\<open>_become\<close> of its base class; the result is the pair of objects as the method
  leaves them.
\<close>

definition LargePositiveInteger1Word__become ::
  "W_LargePositiveInteger1Word \<Rightarrow> W_LargePositiveInteger1Word
     \<Rightarrow> W_LargePositiveInteger1Word \<times> W_LargePositiveInteger1Word" where
  "LargePositiveInteger1Word__become self w_other =
     (self\<lparr>lpi_value := lpi_value w_other, exposed_size := exposed_size w_other,
           hash := hash w_other\<rparr>,
      w_other\<lparr>lpi_value := lpi_value self, exposed_size := exposed_size self,
           hash := hash self\<rparr>)"

definition Float__become :: "W_Float \<Rightarrow> W_Float \<Rightarrow> W_Float \<times> W_Float" where
  "Float__become self w_other =
     (self\<lparr>float_value := float_value w_other, hash := hash w_other\<rparr>,
      w_other\<lparr>float_value := float_value self, hash := hash self\<rparr>)"

definition PointersObjectNoFields__become ::
  "'w W_PointersObjectNoFields \<Rightarrow> 'w W_PointersObjectNoFields
     \<Rightarrow> 'w W_PointersObjectNoFields \<times> 'w W_PointersObjectNoFields" where
  "PointersObjectNoFields__become self w_other =
     (self\<lparr>w_class := w_class w_other, hash := hash w_other\<rparr>,
      w_other\<lparr>w_class := w_class self, hash := hash self\<rparr>)"

definition SmallPointersObject__become ::
  "'w W_SmallPointersObject \<Rightarrow> 'w W_SmallPointersObject
     \<Rightarrow> 'w W_SmallPointersObject \<times> 'w W_SmallPointersObject" where
  "SmallPointersObject__become self w_other =
     (self\<lparr>sp_size := sp_size w_other, f1 := f1 w_other, f2 := f2 w_other,
           f3 := f3 w_other, f4 := f4 w_other,
           w_class := w_class w_other, hash := hash w_other\<rparr>,
      w_other\<lparr>sp_size := sp_size self, f1 := f1 self, f2 := f2 self,
           f3 := f3 self, f4 := f4 self,
           w_class := w_class self, hash := hash self\<rparr>)"

text \<open>
  \<^verbatim>\<open>W_BytesObject._become\<close> and \<^verbatim>\<open>W_WordsObject._become\<close>. The second statement,
  \<^verbatim>\<open>self.c_bytes, w_other.c_bytes = w_other.c_bytes, self.c_bytes\<close>, reads both
  attributes before it assigns any. When one of the two objects was never converted to
  the C layout, the read raises AttributeError: the lists have been exchanged by then,
  the sizes, classes and hashes have not. The result carries the exception, if any, with
  the two objects as they are at that moment.
\<close>

definition BytesObject__become ::
  "'w W_BytesObject \<Rightarrow> 'w W_BytesObject
     \<Rightarrow> error option \<times> 'w W_BytesObject \<times> 'w W_BytesObject" where
  "BytesObject__become self w_other =
     (let self1 = self\<lparr>bytes := bytes w_other\<rparr>;
          other1 = w_other\<lparr>bytes := bytes self\<rparr>
      in if c_bytes other1 = None \<or> c_bytes self1 = None
         then (Some AttributeError, self1, other1)
         else
           (None,
            self1\<lparr>c_bytes := c_bytes other1, bytes_size := bytes_size other1,
                  w_class := w_class other1, hash := hash other1\<rparr>,
            other1\<lparr>c_bytes := c_bytes self1, bytes_size := bytes_size self1,
                  w_class := w_class self1, hash := hash self1\<rparr>))"

definition WordsObject__become ::
  "'w W_WordsObject \<Rightarrow> 'w W_WordsObject
     \<Rightarrow> error option \<times> 'w W_WordsObject \<times> 'w W_WordsObject" where
  "WordsObject__become self w_other =
     (let self1 = self\<lparr>words := words w_other\<rparr>;
          other1 = w_other\<lparr>words := words self\<rparr>
      in if c_words other1 = None \<or> c_words self1 = None
         then (Some AttributeError, self1, other1)
         else
           (None,
            self1\<lparr>c_words := c_words other1, words_size := words_size other1,
                  w_class := w_class other1, hash := hash other1\<rparr>,
            other1\<lparr>c_words := c_words self1, words_size := words_size self1,
                  w_class := w_class self1, hash := hash self1\<rparr>))"

text \<open>
  \<^verbatim>\<open>W_CompiledMethod._become\<close> exchanges ten fields and the hash. The field
  \<^verbatim>\<open>lookup_class\<close>, which \<^verbatim>\<open>set_lookup_class_and_name\<close> assigns together with
  \<^verbatim>\<open>lookup_selector\<close>, is not among them.
\<close>

definition CompiledMethod__become ::
  "'w W_CompiledMethod \<Rightarrow> 'w W_CompiledMethod \<Rightarrow> 'w W_CompiledMethod \<times> 'w W_CompiledMethod" where
  "CompiledMethod__become self w_other =
     (self\<lparr>argsize := argsize w_other, primitive := primitive w_other,
           literals := literals w_other, tempsize := tempsize w_other,
           method_bytes := method_bytes w_other, header := header w_other,
           literalsize := literalsize w_other, islarge := islarge w_other,
           lookup_selector := lookup_selector w_other,
           compiledin_class := compiledin_class w_other, hash := hash w_other\<rparr>,
      w_other\<lparr>argsize := argsize self, primitive := primitive self,
           literals := literals self, tempsize := tempsize self,
           method_bytes := method_bytes self, header := header self,
           literalsize := literalsize self, islarge := islarge self,
           lookup_selector := lookup_selector self,
           compiledin_class := compiledin_class self, hash := hash self\<rparr>)"

text \<open>
  \<^verbatim>\<open>W_GenericPointersObject._become\<close>, with \<open>a\<close> and \<open>b\<close> the addresses of \<^verbatim>\<open>self\<close>
  and \<^verbatim>\<open>w_other\<close>: a shadow of the receiver gets the first shot at the rebinding, else a
  shadow of \<^verbatim>\<open>w_other\<close>; then strategy and storage are exchanged.
\<close>

definition GenericPointersObject__become ::
  "'w heap \<Rightarrow> addr \<Rightarrow> 'w W_GenericPointersObject \<Rightarrow> addr \<Rightarrow> 'w W_GenericPointersObject
     \<Rightarrow> 'w heap \<times> 'w W_GenericPointersObject \<times> 'w W_GenericPointersObject" where
  "GenericPointersObject__become h a self b w_other =
     (let h1 =
        (case strategy self of
           Some (Shadow sh) \<Rightarrow> ShadowMixin_become h sh b w_other
         | _ \<Rightarrow>
           (case strategy w_other of
              Some (Shadow sh) \<Rightarrow> ShadowMixin_become h sh a self
            | _ \<Rightarrow> h))
      in (h1,
          self\<lparr>strategy := strategy w_other, storage := storage w_other,
               w_class := w_class w_other, hash := hash w_other\<rparr>,
          w_other\<lparr>strategy := strategy self, storage := storage self,
               w_class := w_class self, hash := hash self\<rparr>))"

definition put2 :: "'w heap \<Rightarrow> addr \<Rightarrow> 'w w_object \<Rightarrow> addr \<Rightarrow> 'w w_object \<Rightarrow> 'w heap" where
  "put2 h a x b y = h\<lparr>objects := (objects h)(a \<mapsto> x, b \<mapsto> y)\<rparr>"

text \<open>
  Dispatch of \<^verbatim>\<open>self._become(w_other)\<close> on the class of \<^verbatim>\<open>self\<close>; the
  \<^verbatim>\<open>assert isinstance(w_other, ...)\<close> of each method is the last case. The objects are
  mutated in place, so the object memory is returned also when an exception was raised.
\<close>

definition dispatch_become ::
  "'w heap \<Rightarrow> addr \<Rightarrow> 'w w_object \<Rightarrow> addr \<Rightarrow> 'w w_object \<Rightarrow> error option \<times> 'w heap" where
  "dispatch_become h a self b w_other =
     (case (self, w_other) of
        (LargePositiveInteger1Word x, LargePositiveInteger1Word y) \<Rightarrow>
          (case LargePositiveInteger1Word__become x y of (x', y') \<Rightarrow>
             (None, put2 h a (LargePositiveInteger1Word x') b (LargePositiveInteger1Word y')))
      | (Float x, Float y) \<Rightarrow>
          (case Float__become x y of (x', y') \<Rightarrow> (None, put2 h a (Float x') b (Float y')))
      | (PointersObjectNoFields x, PointersObjectNoFields y) \<Rightarrow>
          (case PointersObjectNoFields__become x y of (x', y') \<Rightarrow>
             (None, put2 h a (PointersObjectNoFields x') b (PointersObjectNoFields y')))
      | (SmallPointersObject x, SmallPointersObject y) \<Rightarrow>
          (case SmallPointersObject__become x y of (x', y') \<Rightarrow>
             (None, put2 h a (SmallPointersObject x') b (SmallPointersObject y')))
      | (GenericPointersObject x, GenericPointersObject y) \<Rightarrow>
          (case GenericPointersObject__become h a x b y of (h1, x', y') \<Rightarrow>
             (None, put2 h1 a (GenericPointersObject x') b (GenericPointersObject y')))
      | (BytesObject x, BytesObject y) \<Rightarrow>
          (case BytesObject__become x y of (e, x', y') \<Rightarrow>
             (e, put2 h a (BytesObject x') b (BytesObject y')))
      | (WordsObject x, WordsObject y) \<Rightarrow>
          (case WordsObject__become x y of (e, x', y') \<Rightarrow>
             (e, put2 h a (WordsObject x') b (WordsObject y')))
      | (CompiledMethod x, CompiledMethod y) \<Rightarrow>
          (case CompiledMethod__become x y of (x', y') \<Rightarrow>
             (None, put2 h a (CompiledMethod x') b (CompiledMethod y')))
      | _ \<Rightarrow> (Some AssertionError, h))"

text \<open>
  \<^verbatim>\<open>become\<close>: \<^verbatim>\<open>W_Object.become\<close> (small integers) returns False; every other class
  inherits \<^verbatim>\<open>W_AbstractObjectWithIdentityHash.become\<close>. The result is what the call
  returns or raises, together with the object memory it leaves.
\<close>

definition become :: "'w heap \<Rightarrow> addr \<Rightarrow> addr \<Rightarrow> (error + bool) \<times> 'w heap" where
  "become h a b =
     (case (objects h a, objects h b) of
        (Some self, Some w_other) \<Rightarrow>
          (case self of
             SmallInteger _ \<Rightarrow> (Inr False, h)
           | _ \<Rightarrow>
             if \<not> can_become self w_other then (Inr False, h)
             else
               (case is_same_object h a b of
                  Inl e \<Rightarrow> (Inl e, h)
                | Inr True \<Rightarrow> (Inr False, h)
                | Inr False \<Rightarrow>
                    (case dispatch_become h a self b w_other of
                       (Some e, h') \<Rightarrow> (Inl e, h')
                     | (None, h') \<Rightarrow> (Inr True, h'))))
      | _ \<Rightarrow> (Inl MemoryFault, h))"

text \<open>
  What the constructors and \<^verbatim>\<open>convert_to_c_layout\<close> establish for a byte object: a
  list-backed object has as many characters as its size says, a converted one a buffer
  of at least that many.
\<close>

definition BytesObject_invariant :: "'w W_BytesObject \<Rightarrow> bool" where
  "BytesObject_invariant self =
     (case bytes self of
        Some bs \<Rightarrow> bytes_size self = int (length bs)
      | None \<Rightarrow>
          (case c_bytes self of
             Some cs \<Rightarrow> 0 \<le> bytes_size self \<and> bytes_size self \<le> int (length cs)
           | None \<Rightarrow> False))"

text \<open>
  What \<^verbatim>\<open>become\<close> leaves at the address of \<open>old\<close> when it exchanges that object with
  \<open>new\<close>, for the statement of the properties: the object \<open>new\<close>, and for a method the
  object \<open>new\<close> with the \<^verbatim>\<open>lookup_class\<close> that \<open>old\<close> had.
\<close>

definition exchanged_for :: "'w w_object \<Rightarrow> 'w w_object \<Rightarrow> 'w w_object" where
  "exchanged_for old new =
     (case (old, new) of
        (CompiledMethod k, CompiledMethod m) \<Rightarrow> CompiledMethod (m\<lparr>lookup_class := lookup_class k\<rparr>)
      | _ \<Rightarrow> new)"

section \<open>Contexts\<close>

text \<open>
  \<^verbatim>\<open>ContextPartShadow\<close> of \<^verbatim>\<open>storage_contexts.py\<close>, as far as temporaries and the
  operand stack go. The two index constants come from \<^verbatim>\<open>spyvm/constants.py\<close>, which is
  not among the sources; they are parameters. A closure is what the context reads from
  its \<^verbatim>\<open>BlockClosureWrapper\<close> (\<^verbatim>\<open>spyvm/wrapper.py\<close>): \<^verbatim>\<open>startpc()\<close>,
  \<^verbatim>\<open>tempsize()\<close>, and the captured values \<^verbatim>\<open>at0(0) .. at0(size() - 1)\<close>.
  A context holds its method; the dictionary \<^verbatim>\<open>instances_w\<close> of the primitives 77 and 78
  is left out.
\<close>

record constants =
  MTHDCTX_TEMP_FRAME_START :: int
  BLKCTX_STACK_START :: int

record 'w BlockClosureWrapper =
  closure_startpc :: int
  closure_tempsize :: int
  closure_captured :: "'w list"

datatype ContextState = InactiveContext | ActiveContext | DirtyContext

record 'w ContextPartShadow =
  ctx_w_self :: "'w option"
  w_self_size :: int
  state :: ContextState
  is_block_context :: bool
  s_sender :: "nat option"
  pc :: int
  temps_and_stack :: "'w list"
  stack_ptr :: int
  w_home :: "'w option"
  initialip :: int
  eargc :: int
  closure :: "'w BlockClosureWrapper option"
  w_receiver_field :: "'w option"
  w_method_field :: "'w W_CompiledMethod option"
  is_BlockClosure_ensure :: bool
  s_fallback :: "nat option"

text \<open>
  Contexts refer to each other (a block context to its home through the object
  \<^verbatim>\<open>_w_home\<close>), so they live in a store indexed by the identity of the shadow.
  \<open>context_of w\<close> is the context shadow that the object \<open>w\<close> has as its strategy, which
  is what \<^verbatim>\<open>w.as_context_get_shadow(space)\<close> returns for it; making a shadow for an
  object that has none is the strategy factory's work and not modelled.
\<close>

record 'w frames =
  contexts :: "nat \<rightharpoonup> 'w ContextPartShadow"
  context_of :: "'w \<rightharpoonup> nat"
  next_context :: nat

definition get_context :: "'w frames \<Rightarrow> nat \<Rightarrow> error + 'w ContextPartShadow" where
  "get_context st c = (case contexts st c of None \<Rightarrow> Inl MemoryFault | Some ctx \<Rightarrow> Inr ctx)"

definition put_context :: "'w frames \<Rightarrow> nat \<Rightarrow> 'w ContextPartShadow \<Rightarrow> 'w frames" where
  "put_context st c ctx = st\<lparr>contexts := (contexts st)(c \<mapsto> ctx)\<rparr>"

definition as_context_get_shadow :: "'w frames \<Rightarrow> 'w \<Rightarrow> error + nat" where
  "as_context_get_shadow st w = (case context_of st w of None \<Rightarrow> Inl ValueError | Some k \<Rightarrow> Inr k)"

subsection \<open>W_CompiledMethod, as the context reads it\<close>

definition BYTES_PER_WORD :: int where
  "BYTES_PER_WORD = 4"

definition CompiledMethod_tempsize :: "'w W_CompiledMethod \<Rightarrow> int" where
  "CompiledMethod_tempsize m = tempsize m"

definition getliteralsize :: "'w W_CompiledMethod \<Rightarrow> int" where
  "getliteralsize m = literalsize m * BYTES_PER_WORD"

definition headersize :: "'w W_CompiledMethod \<Rightarrow> int" where
  "headersize m = BYTES_PER_WORD"

definition bytecodeoffset :: "'w W_CompiledMethod \<Rightarrow> int" where
  "bytecodeoffset m = getliteralsize m + headersize m"

definition compute_frame_size :: "'w W_CompiledMethod \<Rightarrow> int" where
  "compute_frame_size m = 16 + (if islarge m then 1 else 0) * 40 + argsize m"

subsection \<open>Accessors of one context\<close>

definition pure_is_block_context :: "'w objspace \<Rightarrow> 'w ContextPartShadow \<Rightarrow> bool" where
  "pure_is_block_context space self =
     (if uses_block_contexts space then is_block_context self else False)"

definition w_method_method_context :: "'w ContextPartShadow \<Rightarrow> error + 'w W_CompiledMethod" where
  "w_method_method_context self =
     (case w_method_field self of None \<Rightarrow> Inl AssertionError | Some retval \<Rightarrow> Inr retval)"

definition is_closure_context_method_context :: "'w ContextPartShadow \<Rightarrow> bool" where
  "is_closure_context_method_context self \<longleftrightarrow> closure self \<noteq> None"

definition tempsize_method_context :: "'w ContextPartShadow \<Rightarrow> error + int" where
  "tempsize_method_context self =
     (case closure self of
        None \<Rightarrow>
          (case w_method_method_context self of
             Inl e \<Rightarrow> Inl e | Inr m \<Rightarrow> Inr (CompiledMethod_tempsize m))
      | Some cl \<Rightarrow> Inr (closure_tempsize cl))"

definition tempsize_block_context :: "'w ContextPartShadow \<Rightarrow> int" where
  "tempsize_block_context self = 0"

definition ctx_tempsize :: "'w objspace \<Rightarrow> 'w ContextPartShadow \<Rightarrow> error + int" where
  "ctx_tempsize space self =
     (if pure_is_block_context space self then Inr (tempsize_block_context self)
      else tempsize_method_context self)"

definition stackstart :: "'w objspace \<Rightarrow> constants \<Rightarrow> 'w ContextPartShadow \<Rightarrow> int" where
  "stackstart space k self =
     (if pure_is_block_context space self then BLKCTX_STACK_START k
      else MTHDCTX_TEMP_FRAME_START k)"

definition stackend :: "'w ContextPartShadow \<Rightarrow> int" where
  "stackend self = w_self_size self"

definition stacksize :: "'w objspace \<Rightarrow> constants \<Rightarrow> 'w ContextPartShadow \<Rightarrow> int" where
  "stacksize space k self = stackend self - stackstart space k self"

definition stackdepth :: "'w ContextPartShadow \<Rightarrow> int" where
  "stackdepth self = stack_ptr self"

text \<open>
  \<^verbatim>\<open>full_stacksize\<close> reads \<^verbatim>\<open>is_block_context\<close> itself; its call of \<^verbatim>\<open>w_method()\<close>
  is then the one of a method context.
\<close>

definition full_stacksize :: "'w objspace \<Rightarrow> constants \<Rightarrow> 'w ContextPartShadow \<Rightarrow> error + int" where
  "full_stacksize space k self =
     (if \<not> is_block_context self then
        (case w_method_method_context self of
           Inl e \<Rightarrow> Inl e | Inr method \<Rightarrow> Inr (compute_frame_size method))
      else Inr (stacksize space k self))"

definition init_temps_and_stack ::
  "'w objspace \<Rightarrow> constants \<Rightarrow> 'w ContextPartShadow \<Rightarrow> error + 'w ContextPartShadow" where
  "init_temps_and_stack space k self =
     (case full_stacksize space k self of
        Inl e \<Rightarrow> Inl e
      | Inr sz \<Rightarrow>
          let self1 = self\<lparr>temps_and_stack := replicate (nat sz) (w_nil space)\<rparr> in
          (case ctx_tempsize space self1 of
             Inl e \<Rightarrow> Inl e
           | Inr ts \<Rightarrow> Inr (self1\<lparr>stack_ptr := ts\<rparr>)))"

definition stack_get :: "'w ContextPartShadow \<Rightarrow> int \<Rightarrow> error + 'w" where
  "stack_get self index0 =
     (if \<not> index0 \<ge> 0 then Inl AssertionError else py_getitem (temps_and_stack self) index0)"

definition stack_put :: "'w ContextPartShadow \<Rightarrow> int \<Rightarrow> 'w \<Rightarrow> error + 'w ContextPartShadow" where
  "stack_put self index0 w_val =
     (if \<not> index0 \<ge> 0 then Inl AssertionError
      else case py_setitem (temps_and_stack self) index0 w_val of
        Inl e \<Rightarrow> Inl e
      | Inr buf \<Rightarrow> Inr (self\<lparr>temps_and_stack := buf\<rparr>))"

definition gettemp_method_context :: "'w ContextPartShadow \<Rightarrow> int \<Rightarrow> error + 'w" where
  "gettemp_method_context self index0 = stack_get self index0"

definition settemp_method_context ::
  "'w ContextPartShadow \<Rightarrow> int \<Rightarrow> 'w \<Rightarrow> error + 'w ContextPartShadow" where
  "settemp_method_context self index0 w_value = stack_put self index0 w_value"

definition store_pc :: "'w ContextPartShadow \<Rightarrow> int \<Rightarrow> error + 'w ContextPartShadow" where
  "store_pc self newpc = (if \<not> newpc \<ge> - 1 then Inl AssertionError else Inr (self\<lparr>pc := newpc\<rparr>))"

definition store_w_receiver :: "'w ContextPartShadow \<Rightarrow> 'w \<Rightarrow> 'w ContextPartShadow" where
  "store_w_receiver self w = self\<lparr>w_receiver_field := Some w\<rparr>"

definition store_w_method :: "'w ContextPartShadow \<Rightarrow> 'w W_CompiledMethod \<Rightarrow> 'w ContextPartShadow" where
  "store_w_method self m =
     self\<lparr>w_method_field := Some m, is_BlockClosure_ensure := (primitive m = 198)\<rparr>"

definition push :: "'w ContextPartShadow \<Rightarrow> 'w \<Rightarrow> error + 'w ContextPartShadow" where
  "push self w_v =
     (let ptr = stack_ptr self in
      case stack_put self ptr w_v of
        Inl e \<Rightarrow> Inl e
      | Inr self1 \<Rightarrow> Inr (self1\<lparr>stack_ptr := ptr + 1\<rparr>))"

subsection \<open>Accessors that follow the home link\<close>

text \<open>
  A block context forwards temporaries, receiver and method to its home, and the home
  forwards again if it is a block context itself. Over a store whose home links run in
  a circle the calls do not return; the result \<open>None\<close> stands for that.
\<close>

definition s_home_block_context :: "'w frames \<Rightarrow> 'w ContextPartShadow \<Rightarrow> error + nat" where
  "s_home_block_context st self =
     (case w_home self of None \<Rightarrow> Inl AttributeError | Some w \<Rightarrow> as_context_get_shadow st w)"

partial_function (option) gettemp ::
  "'w objspace \<Rightarrow> 'w frames \<Rightarrow> nat \<Rightarrow> int \<Rightarrow> (error + 'w) option" where
  "gettemp space st c index =
     (case get_context st c of
        Inl e \<Rightarrow> Some (Inl e)
      | Inr self \<Rightarrow>
          if pure_is_block_context space self then
            (case s_home_block_context st self of
               Inl e \<Rightarrow> Some (Inl e)
             | Inr h \<Rightarrow> gettemp space st h index)
          else Some (gettemp_method_context self index))"

partial_function (option) settemp ::
  "'w objspace \<Rightarrow> 'w frames \<Rightarrow> nat \<Rightarrow> int \<Rightarrow> 'w \<Rightarrow> (error + 'w frames) option" where
  "settemp space st c index w_value =
     (case get_context st c of
        Inl e \<Rightarrow> Some (Inl e)
      | Inr self \<Rightarrow>
          if pure_is_block_context space self then
            (case s_home_block_context st self of
               Inl e \<Rightarrow> Some (Inl e)
             | Inr h \<Rightarrow> settemp space st h index w_value)
          else
            (case settemp_method_context self index w_value of
               Inl e \<Rightarrow> Some (Inl e)
             | Inr self1 \<Rightarrow> Some (Inr (put_context st c self1))))"

declare gettemp.simps [code]

declare settemp.simps [code]

text \<open>\<^verbatim>\<open>w_receiver()\<close>; the receiver of a context that never got one is Python's None.\<close>

partial_function (option) w_receiver ::
  "'w objspace \<Rightarrow> 'w frames \<Rightarrow> nat \<Rightarrow> (error + 'w option) option" where
  "w_receiver space st c =
     (case get_context st c of
        Inl e \<Rightarrow> Some (Inl e)
      | Inr self \<Rightarrow>
          if pure_is_block_context space self then
            (case s_home_block_context st self of
               Inl e \<Rightarrow> Some (Inl e)
             | Inr h \<Rightarrow> w_receiver space st h)
          else Some (Inr (w_receiver_field self)))"

declare w_receiver.simps [code]

text \<open>
  \<^verbatim>\<open>pop\<close>. With the stack pointer at 0 the receiver is looked up, and then the
  statement \<^verbatim>\<open>assert ptr >= 0\<close> fails.
\<close>

definition pop :: "'w objspace \<Rightarrow> 'w frames \<Rightarrow> nat \<Rightarrow> (error + 'w \<times> 'w frames) option" where
  "pop space st c =
     (case get_context st c of
        Inl e \<Rightarrow> Some (Inl e)
      | Inr self \<Rightarrow>
          let ptr = stack_ptr self - 1 in
          if ptr < 0 then
            (case w_receiver space st c of
               None \<Rightarrow> None
             | Some (Inl e) \<Rightarrow> Some (Inl e)
             | Some (Inr ret) \<Rightarrow> Some (Inl AssertionError))
          else
            (case stack_get self ptr of
               Inl e \<Rightarrow> Some (Inl e)
             | Inr ret \<Rightarrow> Some (Inr (ret, put_context st c (self\<lparr>stack_ptr := ptr\<rparr>)))))"

subsection \<open>Building a method context\<close>

text \<open>\<^verbatim>\<open>ContextPartShadow.__init__(space, None, size)\<close>, as \<^verbatim>\<open>build_method_context\<close> calls it.\<close>

definition ContextPartShadow_init :: "int \<Rightarrow> 'w ContextPartShadow" where
  "ContextPartShadow_init sz =
     \<lparr>ctx_w_self = None, w_self_size = sz, state = InactiveContext, is_block_context = False,
      s_sender = None, pc = 0, temps_and_stack = [], stack_ptr = 0,
      w_home = None, initialip = 0, eargc = 0, closure = None,
      w_receiver_field = None, w_method_field = None, is_BlockClosure_ensure = False,
      s_fallback = None\<rparr>"

text \<open>The loops of \<^verbatim>\<open>initialize_temps\<close>: \<^verbatim>\<open>self.settemp(i0 + offset, values[i0])\<close>.\<close>

fun settemp_all ::
  "'w objspace \<Rightarrow> 'w frames \<Rightarrow> nat \<Rightarrow> int \<Rightarrow> 'w list \<Rightarrow> (error + 'w frames) option" where
  "settemp_all space st c i [] = Some (Inr st)"
| "settemp_all space st c i (x # xs) =
     (case settemp space st c i x of
        None \<Rightarrow> None
      | Some (Inl e) \<Rightarrow> Some (Inl e)
      | Some (Inr st1) \<Rightarrow> settemp_all space st1 c (i + 1) xs)"

definition initialize_temps ::
  "'w objspace \<Rightarrow> 'w frames \<Rightarrow> nat \<Rightarrow> 'w list \<Rightarrow> (error + 'w frames) option" where
  "initialize_temps space st c arguments =
     (let argc = int (length arguments) in
      case settemp_all space st c 0 arguments of
        None \<Rightarrow> None
      | Some (Inl e) \<Rightarrow> Some (Inl e)
      | Some (Inr st1) \<Rightarrow>
          (case get_context st1 c of
             Inl e \<Rightarrow> Some (Inl e)
           | Inr self \<Rightarrow>
               (case closure self of
                  None \<Rightarrow> Some (Inr st1)
                | Some cl \<Rightarrow>
                    (case w_method_method_context self of
                       Inl e \<Rightarrow> Some (Inl e)
                     | Inr m \<Rightarrow>
                         (case store_pc self (closure_startpc cl - bytecodeoffset m - 1) of
                            Inl e \<Rightarrow> Some (Inl e)
                          | Inr self1 \<Rightarrow>
                              settemp_all space (put_context st1 c self1) c argc
                                (closure_captured cl))))))"

text \<open>
  \<^verbatim>\<open>build_method_context\<close>: the new context gets the next free identity; the result is
  that identity and the store with the context in it.
\<close>

definition build_method_context ::
  "'w objspace \<Rightarrow> constants \<Rightarrow> 'w frames \<Rightarrow> 'w W_CompiledMethod \<Rightarrow> 'w \<Rightarrow> 'w list
     \<Rightarrow> 'w BlockClosureWrapper option \<Rightarrow> nat option \<Rightarrow> (error + nat \<times> 'w frames) option" where
  "build_method_context space k st w_method w_rcvr arguments cl fallback =
     (let sz = compute_frame_size w_method + MethodContext_instsize space;
          ctx = (ContextPartShadow_init sz)\<lparr>is_block_context := False, s_fallback := fallback\<rparr>;
          ctx = store_w_receiver ctx w_rcvr;
          ctx = store_w_method ctx w_method;
          ctx = ctx\<lparr>closure := cl\<rparr>
      in case init_temps_and_stack space k ctx of
           Inl e \<Rightarrow> Some (Inl e)
         | Inr ctx1 \<Rightarrow>
             let c = next_context st;
                 st1 = put_context (st\<lparr>next_context := Suc c\<rparr>) c ctx1
             in (case initialize_temps space st1 c arguments of
                   None \<Rightarrow> None
                 | Some (Inl e) \<Rightarrow> Some (Inl e)
                 | Some (Inr st2) \<Rightarrow> Some (Inr (c, st2))))"

subsection \<open>Calls on a context in the store\<close>

definition push_at :: "'w frames \<Rightarrow> nat \<Rightarrow> 'w \<Rightarrow> error + 'w frames" where
  "push_at st c w_v =
     (case get_context st c of
        Inl e \<Rightarrow> Inl e
      | Inr self \<Rightarrow>
          (case push self w_v of Inl e \<Rightarrow> Inl e | Inr self1 \<Rightarrow> Inr (put_context st c self1)))"

definition stackdepth_at :: "'w frames \<Rightarrow> nat \<Rightarrow> error + int" where
  "stackdepth_at st c =
     (case get_context st c of Inl e \<Rightarrow> Inl e | Inr self \<Rightarrow> Inr (stackdepth self))"

text \<open>
  The scenario of the specification as a sequence of calls: build a method context for
  the arguments 3 and 4, read the temporaries 0 and 1, push 7, pop, and ask for the
  stack depth. The result is what the four calls returned.
\<close>

definition method_context_scenario ::
  "'w objspace \<Rightarrow> constants \<Rightarrow> 'w frames \<Rightarrow> 'w W_CompiledMethod \<Rightarrow> 'w
     \<Rightarrow> (error + 'w \<times> 'w \<times> 'w \<times> int) option" where
  "method_context_scenario space k st m rcvr =
     (case build_method_context space k st m rcvr [wrap_int space 3, wrap_int space 4] None None of
        None \<Rightarrow> None
      | Some (Inl e) \<Rightarrow> Some (Inl e)
      | Some (Inr (c, st1)) \<Rightarrow>
     (case gettemp space st1 c 0 of
        None \<Rightarrow> None
      | Some (Inl e) \<Rightarrow> Some (Inl e)
      | Some (Inr t0) \<Rightarrow>
     (case gettemp space st1 c 1 of
        None \<Rightarrow> None
      | Some (Inl e) \<Rightarrow> Some (Inl e)
      | Some (Inr t1) \<Rightarrow>
     (case push_at st1 c (wrap_int space 7) of
        Inl e \<Rightarrow> Some (Inl e)
      | Inr st2 \<Rightarrow>
     (case pop space st2 c of
        None \<Rightarrow> None
      | Some (Inl e) \<Rightarrow> Some (Inl e)
      | Some (Inr (popped, st3)) \<Rightarrow>
     (case stackdepth_at st3 c of
        Inl e \<Rightarrow> Some (Inl e)
      | Inr depth \<Rightarrow> Some (Inr (t0, t1, popped, depth))))))))"

text \<open>
  Popping a context right after it was built, when its operand stack is empty: the
  result of that pop, of a following push and pop, and the temporaries of the arguments
  as they are afterwards.
\<close>

definition empty_stack_pop_scenario ::
  "'w objspace \<Rightarrow> constants \<Rightarrow> 'w frames \<Rightarrow> 'w W_CompiledMethod \<Rightarrow> 'w \<Rightarrow> 'w list \<Rightarrow> 'w
     \<Rightarrow> (error + 'w \<times> 'w \<times> 'w list) option" where
  "empty_stack_pop_scenario space k st m rcvr arguments w_v =
     (case build_method_context space k st m rcvr arguments None None of
        None \<Rightarrow> None
      | Some (Inl e) \<Rightarrow> Some (Inl e)
      | Some (Inr (c, st1)) \<Rightarrow>
     (case pop space st1 c of
        None \<Rightarrow> None
      | Some (Inl e) \<Rightarrow> Some (Inl e)
      | Some (Inr (first, st2)) \<Rightarrow>
     (case push_at st2 c w_v of
        Inl e \<Rightarrow> Some (Inl e)
      | Inr st3 \<Rightarrow>
     (case pop space st3 c of
        None \<Rightarrow> None
      | Some (Inl e) \<Rightarrow> Some (Inl e)
      | Some (Inr (second, st4)) \<Rightarrow>
     (case get_context st4 c of
        Inl e \<Rightarrow> Some (Inl e)
      | Inr self \<Rightarrow>
          Some (Inr (first, second, take (length arguments) (temps_and_stack self))))))))"

text \<open>
  Writing a temporary through one context and reading it on another: the store after
  \<^verbatim>\<open>b.settemp(k, v)\<close> answers \<^verbatim>\<open>h.gettemp(k)\<close>.
\<close>

definition settemp_then_gettemp ::
  "'w objspace \<Rightarrow> 'w frames \<Rightarrow> nat \<Rightarrow> nat \<Rightarrow> int \<Rightarrow> 'w \<Rightarrow> (error + 'w) option" where
  "settemp_then_gettemp space st b h k w_value =
     (case settemp space st b k w_value of
        None \<Rightarrow> None
      | Some (Inl e) \<Rightarrow> Some (Inl e)
      | Some (Inr st1) \<Rightarrow> gettemp space st1 h k)"

section \<open>Storage strategies at work\<close>

text \<open>
  \<^verbatim>\<open>storage.py\<close> declares the strategies, their order of generalization, and what each
  contains; the machinery that runs them (\<^verbatim>\<open>rpython.rlib.rstrategies\<close>) is a library
  outside the repository. The declarations below follow \<^verbatim>\<open>storage.py\<close>; the machinery
  is modelled from the specification, and each such definition says so.

  Slots hold references. Small integers and floats are value objects
  (\<^verbatim>\<open>is_same_object\<close> compares their values), so a reference to one is the value: the
  32-bit word of a small integer, the bit pattern of a float. A reference to a byte
  object or to an object of any other class is its address; the weak list strategy asks
  of a value whether it is a small integer or a byte object. The shadows belong to other
  modules and are outside this model: their slot access is reported as not implemented.
\<close>

datatype oop = W_Nil | W_SmallInt "32 word" | W_FloatObj "64 word" | W_Bytes addr | W_Other addr

text \<open>
  Modelled from the spec: what the weak list strategy reads from outside the object.
  The class shadow of \<^verbatim>\<open>storage_classes.py\<close>, which is missing, gives the number of
  "instance-variable slots" of the instances of a class (\<^verbatim>\<open>instsize()\<close>);
  \<open>instsize_of c\<close> is that number for the class \<open>c\<close>. A weak reference
  \<^verbatim>\<open>weakref.ref(v)\<close> answers \<open>v\<close> until "its referent is collected", and None
  afterwards; \<open>alive v\<close> says that \<open>v\<close> has not been collected at the moment of the call.
\<close>

record environment =
  instsize_of :: "oop \<Rightarrow> int"
  alive :: "oop \<Rightarrow> bool"

text \<open>
  The \<^verbatim>\<open>generalize\<close> lists of the \<^verbatim>\<open>@rstrat.strategy\<close> decorators, in the order of
  \<^verbatim>\<open>storage.py\<close>.
\<close>

fun generalize :: "strategy \<Rightarrow> strategy list" where
  "generalize AllNilStrategy = [SmallIntegerOrNilStrategy, FloatOrNilStrategy, ListStrategy]"
| "generalize SmallIntegerOrNilStrategy = [ListStrategy]"
| "generalize FloatOrNilStrategy = [ListStrategy]"
| "generalize ListStrategy = []"
| "generalize WeakListStrategy = []"
| "generalize (Shadow _) = []"

text \<open>
  \<^verbatim>\<open>unwrapped_tagged_value\<close> of the two tagging strategies: \<^verbatim>\<open>constants.MAXINT\<close>, the
  largest machine integer, and \<^verbatim>\<open>sys.float_info.max\<close>, the largest finite double.
\<close>

definition MAXINT :: int where
  "MAXINT = maxint"

definition tag_float :: "64 word" where
  "tag_float = 0x7FEFFFFFFFFFFFFF"

text \<open>
  Modelled from the spec: \<^verbatim>\<open>wrap_int\<close> and \<^verbatim>\<open>wrap_float\<close> of \<^verbatim>\<open>objspace.py\<close>, which
  is missing; \<^verbatim>\<open>wrap\<close> of the two tagging strategies calls them. They build the small
  integer ("signed value within a fixed bit width") and the float ("64-bit value") of the
  given value. The way back is in \<^verbatim>\<open>model.py\<close>: \<^verbatim>\<open>unwrap_int\<close> of a small integer and
  \<^verbatim>\<open>unwrap_float\<close> of a float return the value, and the classes that do not define
  them raise UnwrappingError.
\<close>

definition oop_wrap_int :: "int \<Rightarrow> oop" where
  "oop_wrap_int val = W_SmallInt (word_of_int val)"

definition oop_unwrap_int :: "oop \<Rightarrow> error + int" where
  "oop_unwrap_int w = (case w of W_SmallInt x \<Rightarrow> Inr (sint x) | _ \<Rightarrow> Inl UnwrappingError)"

definition oop_wrap_float :: "64 word \<Rightarrow> oop" where
  "oop_wrap_float val = W_FloatObj val"

definition oop_unwrap_float :: "oop \<Rightarrow> error + 64 word" where
  "oop_unwrap_float w = (case w of W_FloatObj x \<Rightarrow> Inr x | _ \<Rightarrow> Inl UnwrappingError)"

text \<open>
  Modelled from the spec: \<^verbatim>\<open>_check_can_handle\<close> of the strategy classes of rstrategies,
  the "type constraint" of a strategy. \<open>AllNil\<close> holds nil only; a tagged single-type
  strategy holds nil and the values of its type other than the "one reserved sentinel
  value meaning nil"; the generic list holds "arbitrary values". For the weak list
  \<^verbatim>\<open>storage.py\<close> itself returns True, and a shadow is a list strategy.
\<close>

fun check_can_handle :: "strategy \<Rightarrow> oop \<Rightarrow> bool" where
  "check_can_handle AllNilStrategy v = (v = W_Nil)"
| "check_can_handle SmallIntegerOrNilStrategy v =
     (case v of W_Nil \<Rightarrow> True | W_SmallInt x \<Rightarrow> sint x \<noteq> MAXINT | _ \<Rightarrow> False)"
| "check_can_handle FloatOrNilStrategy v =
     (case v of W_Nil \<Rightarrow> True | W_FloatObj x \<Rightarrow> x \<noteq> tag_float | _ \<Rightarrow> False)"
| "check_can_handle ListStrategy v = True"
| "check_can_handle WeakListStrategy v = True"
| "check_can_handle (Shadow _) v = True"

text \<open>
  Modelled from the spec: the storage a strategy starts with for an object of a given
  size, \<^verbatim>\<open>_initialize_storage\<close> of rstrategies. \<open>AllNil\<close> is the "zero-size-allocation
  representation" that keeps the size only; a tagged strategy has a "homogeneous array
  storing raw values", all set to the sentinel; the generic list an array of nils.
  The weak list starts with strong entries for nil, as \<^verbatim>\<open>storage.py\<close> has it.
\<close>

fun initialize_storage :: "strategy \<Rightarrow> int \<Rightarrow> oop storage" where
  "initialize_storage AllNilStrategy n = SingleValueStrategyStorage n"
| "initialize_storage SmallIntegerOrNilStrategy n = IntStorage (replicate (nat n) MAXINT)"
| "initialize_storage FloatOrNilStrategy n = FloatStorage (replicate (nat n) tag_float)"
| "initialize_storage ListStrategy n = ListStorage (replicate (nat n) W_Nil)"
| "initialize_storage WeakListStrategy n = WeakStorage (replicate (nat n) (StrongListEntry W_Nil))"
| "initialize_storage (Shadow _) n = ListStorage (replicate (nat n) W_Nil)"

text \<open>
  Modelled from the spec: \<^verbatim>\<open>size(owner)\<close> and \<^verbatim>\<open>fetch(owner, i)\<close> of the strategies.
  \<^verbatim>\<open>storage.py\<close> imports \<^verbatim>\<open>UnsafeIndexingMixin\<close>, so the strategies do not check the
  index themselves: \<open>AllNil\<close> answers nil for any index and the array strategies index
  their Python list. A tagged strategy reads the sentinel back as nil and wraps every
  other raw value.
\<close>

definition storage_size :: "oop storage \<Rightarrow> error + int" where
  "storage_size sto =
     (case sto of
        NoStorage \<Rightarrow> Inl AttributeError
      | SingleValueStrategyStorage n \<Rightarrow> Inr n
      | IntStorage xs \<Rightarrow> Inr (int (length xs))
      | FloatStorage xs \<Rightarrow> Inr (int (length xs))
      | ListStorage xs \<Rightarrow> Inr (int (length xs))
      | WeakStorage xs \<Rightarrow> Inr (int (length xs)))"

definition wrap_tagged_int :: "int \<Rightarrow> oop" where
  "wrap_tagged_int x = (if x = MAXINT then W_Nil else oop_wrap_int x)"

definition wrap_tagged_float :: "64 word \<Rightarrow> oop" where
  "wrap_tagged_float x = (if x = tag_float then W_Nil else oop_wrap_float x)"

text \<open>
  The entries of a weak list, from \<^verbatim>\<open>storage.py\<close>. \<^verbatim>\<open>ListEntry.build\<close> makes a strong
  entry for an instance variable, a small integer and a byte object, and a weak entry
  for anything else; \<^verbatim>\<open>get\<close> of a strong entry answers its value, \<^verbatim>\<open>get\<close> of a weak
  entry what the weak reference answers. \<^verbatim>\<open>WeakListStrategy._wrap\<close> is
  \<^verbatim>\<open>value.get() or self.default_value()\<close>: no class of \<^verbatim>\<open>model.py\<close> defines a truth
  value, so every object counts as true and None is replaced by nil.
\<close>

definition is_strong_anyway :: "oop \<Rightarrow> bool \<Rightarrow> bool" where
  "is_strong_anyway v is_instvar \<longleftrightarrow>
     is_instvar \<or> (case v of W_SmallInt _ \<Rightarrow> True | W_Bytes _ \<Rightarrow> True | _ \<Rightarrow> False)"

definition ListEntry_build :: "oop \<Rightarrow> bool \<Rightarrow> oop ListEntry" where
  "ListEntry_build v is_instvar =
     (if is_strong_anyway v is_instvar then StrongListEntry v else WeakListEntry v)"

definition ListEntry_get :: "environment \<Rightarrow> oop ListEntry \<Rightarrow> oop option" where
  "ListEntry_get env entry =
     (case entry of
        StrongListEntry v \<Rightarrow> Some v
      | WeakListEntry v \<Rightarrow> if alive env v then Some v else None)"

definition WeakListStrategy_wrap :: "environment \<Rightarrow> oop ListEntry \<Rightarrow> oop" where
  "WeakListStrategy_wrap env entry =
     (case ListEntry_get env entry of Some v \<Rightarrow> v | None \<Rightarrow> W_Nil)"

text \<open>
  \<^verbatim>\<open>W_GenericPointersObject.instsize\<close>: \<^verbatim>\<open>class_shadow\<close> asserts that the object has
  a class and asks the shadow of that class. \<^verbatim>\<open>WeakListStrategy._unwrap\<close> builds the
  entry of a value for an index of the object.
\<close>

definition GenericPointersObject_instsize ::
  "environment \<Rightarrow> oop W_GenericPointersObject \<Rightarrow> error + int" where
  "GenericPointersObject_instsize env w_self =
     (case w_class w_self of
        None \<Rightarrow> Inl AssertionError
      | Some c \<Rightarrow> Inr (instsize_of env c))"

definition WeakListStrategy_unwrap ::
  "environment \<Rightarrow> oop \<Rightarrow> int \<Rightarrow> oop W_GenericPointersObject \<Rightarrow> error + oop ListEntry" where
  "WeakListStrategy_unwrap env v index0 w_self =
     (case GenericPointersObject_instsize env w_self of
        Inl e \<Rightarrow> Inl e
      | Inr n \<Rightarrow> Inr (ListEntry_build v (index0 < n)))"

text \<open>
  Modelled from the spec: \<^verbatim>\<open>fetch(owner, i)\<close> of the strategies, as described above.
  The weak list, whose storage is a Python list of entries, wraps the entry at the index
  with the \<^verbatim>\<open>_wrap\<close> of \<^verbatim>\<open>storage.py\<close>: "a weak reference that reads back as nil once
  its referent is collected".
\<close>

definition strategy_fetch ::
  "environment \<Rightarrow> strategy \<Rightarrow> oop storage \<Rightarrow> int \<Rightarrow> error + oop" where
  "strategy_fetch env s sto index0 =
     (case (s, sto) of
        (AllNilStrategy, SingleValueStrategyStorage n) \<Rightarrow> Inr W_Nil
      | (SmallIntegerOrNilStrategy, IntStorage xs) \<Rightarrow>
          (case py_getitem xs index0 of Inl e \<Rightarrow> Inl e | Inr x \<Rightarrow> Inr (wrap_tagged_int x))
      | (FloatOrNilStrategy, FloatStorage xs) \<Rightarrow>
          (case py_getitem xs index0 of Inl e \<Rightarrow> Inl e | Inr x \<Rightarrow> Inr (wrap_tagged_float x))
      | (ListStrategy, ListStorage xs) \<Rightarrow> py_getitem xs index0
      | (WeakListStrategy, WeakStorage xs) \<Rightarrow>
          (case py_getitem xs index0 of
             Inl e \<Rightarrow> Inl e | Inr entry \<Rightarrow> Inr (WeakListStrategy_wrap env entry))
      | (Shadow _, _) \<Rightarrow> Inl NotImplementedError
      | _ \<Rightarrow> Inl AttributeError)"

text \<open>
  Modelled from the spec: the raw value a tagged strategy keeps for a reference
  (\<^verbatim>\<open>_unwrap\<close> of rstrategies): the sentinel for nil, the unwrapped value otherwise.
\<close>

definition unwrap_tagged_int :: "oop \<Rightarrow> error + int" where
  "unwrap_tagged_int v = (if v = W_Nil then Inr MAXINT else oop_unwrap_int v)"

definition unwrap_tagged_float :: "oop \<Rightarrow> error + 64 word" where
  "unwrap_tagged_float v = (if v = W_Nil then Inr tag_float else oop_unwrap_float v)"

text \<open>
  Modelled from the spec: the part of \<^verbatim>\<open>store(owner, i, v)\<close> that writes a value the
  strategy can hold into its storage. For the weak list it is \<^verbatim>\<open>WeakListStrategy.store\<close>
  of \<^verbatim>\<open>storage.py\<close>: the entry is built by \<^verbatim>\<open>_unwrap\<close> and then assigned at the index
  of the Python list.
\<close>

definition store_slot ::
  "environment \<Rightarrow> oop W_GenericPointersObject \<Rightarrow> strategy \<Rightarrow> int \<Rightarrow> oop \<Rightarrow> error + oop storage" where
  "store_slot env w_self s index0 v =
     (let sto = storage w_self in
      case (s, sto) of
        (AllNilStrategy, SingleValueStrategyStorage n) \<Rightarrow> Inr sto
      | (SmallIntegerOrNilStrategy, IntStorage xs) \<Rightarrow>
          (case unwrap_tagged_int v of
             Inl e \<Rightarrow> Inl e
           | Inr x \<Rightarrow>
               (case py_setitem xs index0 x of Inl e \<Rightarrow> Inl e | Inr ys \<Rightarrow> Inr (IntStorage ys)))
      | (FloatOrNilStrategy, FloatStorage xs) \<Rightarrow>
          (case unwrap_tagged_float v of
             Inl e \<Rightarrow> Inl e
           | Inr x \<Rightarrow>
               (case py_setitem xs index0 x of Inl e \<Rightarrow> Inl e | Inr ys \<Rightarrow> Inr (FloatStorage ys)))
      | (ListStrategy, ListStorage xs) \<Rightarrow>
          (case py_setitem xs index0 v of Inl e \<Rightarrow> Inl e | Inr ys \<Rightarrow> Inr (ListStorage ys))
      | (WeakListStrategy, WeakStorage xs) \<Rightarrow>
          (case WeakListStrategy_unwrap env v index0 w_self of
             Inl e \<Rightarrow> Inl e
           | Inr unwrapped \<Rightarrow>
               (case py_setitem xs index0 unwrapped of
                  Inl e \<Rightarrow> Inl e | Inr ys \<Rightarrow> Inr (WeakStorage ys)))
      | (Shadow _, _) \<Rightarrow> Inl NotImplementedError
      | _ \<Rightarrow> Inl AttributeError)"

text \<open>
  Modelled from the spec: "the factory selects the next-more-general strategy in the
  lattice compatible with the new value": the first strategy of the \<^verbatim>\<open>generalize\<close> list
  that can handle the value.
\<close>

definition generalized_strategy_for :: "strategy \<Rightarrow> oop \<Rightarrow> strategy option" where
  "generalized_strategy_for s v = find (\<lambda>t. check_can_handle t v) (generalize s)"

text \<open>
  Modelled from the spec: the factory "re-reads every existing slot from the old
  strategy, writes it into the newly attached strategy". From \<open>AllNil\<close> the new strategy
  takes its initial storage ("Fields are initialized to nil",
  \<^verbatim>\<open>_convert_storage_from_AllNilStrategy\<close> in \<^verbatim>\<open>storage.py\<close>). The weak list builds
  an entry for each slot it has read (\<^verbatim>\<open>WeakListStrategy._convert_storage_from\<close>).
\<close>

fun fetch_slots :: "environment \<Rightarrow> strategy \<Rightarrow> oop storage \<Rightarrow> nat list \<Rightarrow> error + oop list" where
  "fetch_slots env s sto [] = Inr []"
| "fetch_slots env s sto (i # rest) =
     (case strategy_fetch env s sto (int i) of
        Inl e \<Rightarrow> Inl e
      | Inr v \<Rightarrow> (case fetch_slots env s sto rest of Inl e \<Rightarrow> Inl e | Inr vs \<Rightarrow> Inr (v # vs)))"

fun unwrap_weak_all ::
  "environment \<Rightarrow> oop W_GenericPointersObject \<Rightarrow> int \<Rightarrow> oop list \<Rightarrow> error + oop ListEntry list" where
  "unwrap_weak_all env w_self i [] = Inr []"
| "unwrap_weak_all env w_self i (v # vs) =
     (case WeakListStrategy_unwrap env v i w_self of
        Inl e \<Rightarrow> Inl e
      | Inr x \<Rightarrow>
          (case unwrap_weak_all env w_self (i + 1) vs of
             Inl e \<Rightarrow> Inl e | Inr xs \<Rightarrow> Inr (x # xs)))"

fun unwrap_all :: "('a \<Rightarrow> error + 'b) \<Rightarrow> 'a list \<Rightarrow> error + 'b list" where
  "unwrap_all f [] = Inr []"
| "unwrap_all f (v # vs) =
     (case f v of
        Inl e \<Rightarrow> Inl e
      | Inr x \<Rightarrow> (case unwrap_all f vs of Inl e \<Rightarrow> Inl e | Inr xs \<Rightarrow> Inr (x # xs)))"

definition convert_storage_from ::
  "environment \<Rightarrow> oop W_GenericPointersObject \<Rightarrow> strategy \<Rightarrow> strategy \<Rightarrow> error + oop storage" where
  "convert_storage_from env w_self new previous =
     (let sto = storage w_self in
      case storage_size sto of
        Inl e \<Rightarrow> Inl e
      | Inr n \<Rightarrow>
          if previous = AllNilStrategy \<or> new = AllNilStrategy then Inr (initialize_storage new n)
          else
            (case fetch_slots env previous sto [0..<nat n] of
               Inl e \<Rightarrow> Inl e
             | Inr vs \<Rightarrow>
                 (case new of
                    SmallIntegerOrNilStrategy \<Rightarrow>
                      (case unwrap_all unwrap_tagged_int vs of
                         Inl e \<Rightarrow> Inl e | Inr xs \<Rightarrow> Inr (IntStorage xs))
                  | FloatOrNilStrategy \<Rightarrow>
                      (case unwrap_all unwrap_tagged_float vs of
                         Inl e \<Rightarrow> Inl e | Inr xs \<Rightarrow> Inr (FloatStorage xs))
                  | ListStrategy \<Rightarrow> Inr (ListStorage vs)
                  | WeakListStrategy \<Rightarrow>
                      (case unwrap_weak_all env w_self 0 vs of
                         Inl e \<Rightarrow> Inl e | Inr xs \<Rightarrow> Inr (WeakStorage xs))
                  | _ \<Rightarrow> Inl NotImplementedError)))"

text \<open>
  Modelled from the spec: the switch that the factory of rstrategies performs: the new
  strategy is attached together with the converted storage.
\<close>

definition switch_strategy ::
  "environment \<Rightarrow> oop W_GenericPointersObject \<Rightarrow> strategy
     \<Rightarrow> error + oop W_GenericPointersObject" where
  "switch_strategy env w_self new =
     (case strategy w_self of
        None \<Rightarrow> Inl AttributeError
      | Some old \<Rightarrow>
          (case convert_storage_from env w_self new old of
             Inl e \<Rightarrow> Inl e
           | Inr sto \<Rightarrow> Inr (w_self\<lparr>strategy := Some new, storage := sto\<rparr>)))"

text \<open>
  Modelled from the spec: "On a store whose value violates the current strategy's type
  constraint, the strategy requests the factory to generalize".
\<close>

definition generalize_for_value ::
  "environment \<Rightarrow> oop W_GenericPointersObject \<Rightarrow> strategy \<Rightarrow> oop
     \<Rightarrow> error + oop W_GenericPointersObject" where
  "generalize_for_value env w_self s v =
     (case generalized_strategy_for s v of
        None \<Rightarrow> Inl NotImplementedError
      | Some t \<Rightarrow> switch_strategy env w_self t)"

lemma generalize_for_value_handles:
  assumes "generalize_for_value env w_self s v = Inr w_new"
  shows "\<exists>t. strategy w_new = Some t \<and> check_can_handle t v"
proof -
  from assms obtain t where t: "generalized_strategy_for s v = Some t"
    and sw: "switch_strategy env w_self t = Inr w_new"
    by (auto simp: generalize_for_value_def split: option.splits)
  from t have "check_can_handle t v"
    by (auto simp: generalized_strategy_for_def find_Some_iff)
  moreover from sw have "strategy w_new = Some t"
    by (auto simp: switch_strategy_def split: option.splits sum.splits)
  ultimately show ?thesis by blast
qed

text \<open>
  Modelled from the spec: \<^verbatim>\<open>store\<close> of the strategies of rstrategies, to which
  \<^verbatim>\<open>W_GenericPointersObject.store\<close> hands the call. The strategy writes a value it can
  hold; for any other value it generalizes and "then retries the original store" on the
  new strategy. An exception leaves the object as it is at that moment, so the result is
  the object together with the exception, if any.
\<close>

function GenericPointersObject_store ::
  "environment \<Rightarrow> oop W_GenericPointersObject \<Rightarrow> int \<Rightarrow> oop
     \<Rightarrow> oop W_GenericPointersObject \<times> error option" where
  "GenericPointersObject_store env w_self n0 w_value =
     (case strategy w_self of
        None \<Rightarrow> (w_self, Some AttributeError)
      | Some s \<Rightarrow>
          if check_can_handle s w_value then
            (case store_slot env w_self s n0 w_value of
               Inl e \<Rightarrow> (w_self, Some e)
             | Inr sto \<Rightarrow> (w_self\<lparr>storage := sto\<rparr>, None))
          else
            (case generalize_for_value env w_self s w_value of
               Inl e \<Rightarrow> (w_self, Some e)
             | Inr w_new \<Rightarrow> GenericPointersObject_store env w_new n0 w_value))"
  by pat_completeness auto
termination
proof (relation "measure (\<lambda>(env, w, n, v).
    case strategy w of None \<Rightarrow> 0 | Some s \<Rightarrow> if check_can_handle s v then 0 else 1)")
  show "wf (measure (\<lambda>(env, w, n, v).
    case strategy w of None \<Rightarrow> 0 | Some s \<Rightarrow> if check_can_handle s v then 0 else (1::nat)))"
    by simp
next
  fix env :: environment and w_self :: "oop W_GenericPointersObject" and n0 w_value s w_new
  assume "strategy w_self = Some s" and "\<not> check_can_handle s w_value"
    and "generalize_for_value env w_self s w_value = Inr w_new"
  with generalize_for_value_handles [of env w_self s w_value w_new]
  show "((env, w_new, n0, w_value), env, w_self, n0, w_value) \<in> measure (\<lambda>(env, w, n, v).
    case strategy w of None \<Rightarrow> 0 | Some s \<Rightarrow> if check_can_handle s v then 0 else 1)"
    by auto
qed

text \<open>
  \<^verbatim>\<open>W_GenericPointersObject.fetch\<close> and \<^verbatim>\<open>size\<close>, which hand the call to the
  strategy; an object without strategy has size 0.
\<close>

definition GenericPointersObject_fetch ::
  "environment \<Rightarrow> oop W_GenericPointersObject \<Rightarrow> int \<Rightarrow> error + oop" where
  "GenericPointersObject_fetch env w_self n0 =
     (case strategy w_self of
        None \<Rightarrow> Inl AttributeError
      | Some s \<Rightarrow> strategy_fetch env s (storage w_self) n0)"

definition GenericPointersObject_size :: "oop W_GenericPointersObject \<Rightarrow> error + int" where
  "GenericPointersObject_size w_self =
     (case strategy w_self of None \<Rightarrow> Inr 0 | Some s \<Rightarrow> storage_size (storage w_self))"

text \<open>
  \<^verbatim>\<open>StrategyFactory.empty_storage_type\<close> of \<^verbatim>\<open>storage.py\<close>, the strategy of a new
  object, and the new object as \<^verbatim>\<open>W_GenericPointersObject._initialize_storage\<close> sets it
  up.
  Modelled from the spec: \<^verbatim>\<open>set_initial_strategy\<close> of the factory of rstrategies,
  which attaches that strategy with its initial storage.
\<close>

record StrategyFactory =
  no_specialized_storage :: bool

definition empty_storage_type :: "StrategyFactory \<Rightarrow> int \<Rightarrow> bool \<Rightarrow> strategy" where
  "empty_storage_type factory sz weak =
     (if weak then WeakListStrategy
      else if no_specialized_storage factory then ListStrategy
      else AllNilStrategy)"

definition GenericPointersObject_init ::
  "StrategyFactory \<Rightarrow> oop option \<Rightarrow> int \<Rightarrow> bool \<Rightarrow> oop W_GenericPointersObject" where
  "GenericPointersObject_init factory cls sz weak =
     (let storage_type = empty_storage_type factory sz weak
      in \<lparr>hash = UNASSIGNED_HASH, w_class = cls,
          strategy = Some storage_type, storage = initialize_storage storage_type sz\<rparr>)"

text \<open>A sequence of stores, stopping at the first exception.\<close>

fun store_sequence ::
  "environment \<Rightarrow> oop W_GenericPointersObject \<Rightarrow> (int \<times> oop) list
     \<Rightarrow> oop W_GenericPointersObject \<times> error option" where
  "store_sequence env w [] = (w, None)"
| "store_sequence env w ((i, v) # ops) =
     (case GenericPointersObject_store env w i v of
        (w1, Some e) \<Rightarrow> (w1, Some e)
      | (w1, None) \<Rightarrow> store_sequence env w1 ops)"

text \<open>
  The slots as the specification describes a store: the list that holds, for each
  index, the last value stored there, and nil where nothing was stored.
\<close>

fun last_stored :: "oop list \<Rightarrow> (int \<times> oop) list \<Rightarrow> oop list" where
  "last_stored slots [] = slots"
| "last_stored slots ((i, v) # ops) = last_stored (slots[nat i := v]) ops"

text \<open>
  The order of the lattice: a strategy, the strategies of its \<^verbatim>\<open>generalize\<close> list, and
  theirs.
\<close>

definition more_general_or_same :: "strategy \<Rightarrow> strategy \<Rightarrow> bool" where
  "more_general_or_same s t \<longleftrightarrow>
     t = s \<or> t \<in> set (generalize s) \<or> (\<exists>u \<in> set (generalize s). t \<in> set (generalize u))"

text \<open>
  What a slot of a new object reads back after the value \<open>v\<close> was stored at the index
  \<open>i\<close>, as the specification describes the strategies: the value itself, except that in
  a weak object a value that is not held strongly reads back as nil "once its referent
  is collected". Held strongly are the "instance-variable slots, small integers, and
  byte-string values".
\<close>

definition read_back :: "environment \<Rightarrow> bool \<Rightarrow> oop option \<Rightarrow> int \<Rightarrow> oop \<Rightarrow> oop" where
  "read_back env weak cls i v =
     (case cls of
        None \<Rightarrow> v
      | Some c \<Rightarrow>
          if weak \<and> \<not> is_strong_anyway v (i < instsize_of env c) \<and> \<not> alive env v
          then W_Nil else v)"

text \<open>
  For the proofs: the slots that a strategy of the lattice presents for its storage, and
  the storages that belong to such a strategy (raw integers are machine integers).
\<close>

fun presented :: "strategy \<Rightarrow> oop storage \<Rightarrow> oop list" where
  "presented AllNilStrategy (SingleValueStrategyStorage n) = replicate (nat n) W_Nil"
| "presented SmallIntegerOrNilStrategy (IntStorage xs) = map wrap_tagged_int xs"
| "presented FloatOrNilStrategy (FloatStorage xs) = map wrap_tagged_float xs"
| "presented ListStrategy (ListStorage xs) = xs"
| "presented _ _ = []"

fun belongs :: "strategy \<Rightarrow> oop storage \<Rightarrow> bool" where
  "belongs AllNilStrategy (SingleValueStrategyStorage n) = (0 \<le> n)"
| "belongs SmallIntegerOrNilStrategy (IntStorage xs) = (\<forall>x \<in> set xs. - (2 ^ 31) \<le> x \<and> x < 2 ^ 31)"
| "belongs FloatOrNilStrategy (FloatStorage xs) = True"
| "belongs ListStrategy (ListStorage xs) = True"
| "belongs _ _ = False"

section \<open>Concrete inputs\<close>

text \<open>
  Inputs at which the properties below are evaluated. \<open>tagging_space\<close> is an object space
  whose references are tagged integers: \<open>Inl\<close> what \<^verbatim>\<open>wrap_int\<close> built, \<open>Inr\<close> what the
  unsigned wrappers built.
\<close>

definition tagging_space :: "(int + int) objspace" where
  "tagging_space =
     \<lparr>w_nil = Inl 0, wrap_int = Inl, wrap_uint = Inr, wrap_positive_32bit_int = Inr,
      unwrap_int = case_sum Inr Inr, unwrap_uint = case_sum Inr Inr,
      uses_block_contexts = True, MethodContext_instsize = 6\<rparr>"

definition all_ones_stream :: "nat \<Rightarrow> 32 word" where
  "all_ones_stream n = - 1"

definition all_ones_generator :: hash_generator where
  "all_ones_generator = \<lparr>stream = all_ones_stream, drawn = 0\<rparr>"

definition no_shadows :: "nat \<Rightarrow> addr option" where
  "no_shadows k = None"

text \<open>
  Byte objects as the constructor and \<^verbatim>\<open>setchar\<close> leave them, never converted to the C
  layout: \<^verbatim>\<open>'ab'\<close> at the addresses 1 and 2, allocated separately, \<^verbatim>\<open>'ac'\<close> at 3 and
  \<^verbatim>\<open>'xyz'\<close> at 4; at address 5 a word object of size 2.
\<close>

definition string_object :: "string \<Rightarrow> int \<Rightarrow> int W_BytesObject" where
  "string_object s h = (BytesObject_init None (length s))\<lparr>bytes := Some s, hash := h\<rparr>"

definition string_heap :: "int heap" where
  "string_heap =
     \<lparr>objects = [1 \<mapsto> BytesObject (string_object ''ab'' 5),
                 2 \<mapsto> BytesObject (string_object ''ab'' 7),
                 3 \<mapsto> BytesObject (string_object ''ac'' 8),
                 4 \<mapsto> BytesObject (string_object ''xyz'' 9),
                 5 \<mapsto> WordsObject (WordsObject_init None 2)],
      shadows = no_shadows\<rparr>"

text \<open>
  Two methods at the addresses 1 and 2, installed as \<^verbatim>\<open>foo\<close> in the class at address 7
  and as \<^verbatim>\<open>bar\<close> in the class at address 8. References are addresses here.
\<close>

definition foo_method :: "addr W_CompiledMethod" where
  "foo_method =
     \<lparr>hash = 11, header = 0, primitive = 0, literalsize = 0, islarge = False,
      tempsize = 0, argsize = 0, method_bytes = ''a'', literals = [],
      lookup_selector = ''foo'', compiledin_class = None, lookup_class = Some 7\<rparr>"

definition bar_method :: "addr W_CompiledMethod" where
  "bar_method =
     \<lparr>hash = 12, header = 0, primitive = 0, literalsize = 0, islarge = False,
      tempsize = 1, argsize = 1, method_bytes = ''b'', literals = [],
      lookup_selector = ''bar'', compiledin_class = None, lookup_class = Some 8\<rparr>"

definition method_heap :: "addr heap" where
  "method_heap =
     \<lparr>objects = [1 \<mapsto> CompiledMethod foo_method, 2 \<mapsto> CompiledMethod bar_method],
      shadows = no_shadows\<rparr>"

text \<open>
  Two 1-word large positive integers holding 4294967295 and 1 at the addresses 1 and 2,
  and at address 3 a small slotted object whose first field refers to address 1.
  References are addresses here, with nil at address 0.
\<close>

definition lpi_heap :: "addr heap" where
  "lpi_heap =
     \<lparr>objects =
        [1 \<mapsto> LargePositiveInteger1Word (LargePositiveInteger1Word_init 4294967295 4),
         2 \<mapsto> LargePositiveInteger1Word (LargePositiveInteger1Word_init 1 4),
         3 \<mapsto> SmallPointersObject
               \<lparr>hash = UNASSIGNED_HASH, w_class = None, sp_size = 1,
                f1 = 1, f2 = 0, f3 = 0, f4 = 0\<rparr>],
      shadows = no_shadows\<rparr>"

definition lpi_heap_swapped :: "addr heap" where
  "lpi_heap_swapped =
     lpi_heap\<lparr>objects := (objects lpi_heap)
       (1 \<mapsto> LargePositiveInteger1Word (LargePositiveInteger1Word_init 1 4),
        2 \<mapsto> LargePositiveInteger1Word (LargePositiveInteger1Word_init 4294967295 4))\<rparr>"

text \<open>
  A method with two arguments and no further temporaries, an empty context store, and
  the index constants of the Squeak image format.
\<close>

definition two_arg_method :: "(int + int) W_CompiledMethod" where
  "two_arg_method =
     \<lparr>hash = UNASSIGNED_HASH, header = 0, primitive = 0, literalsize = 0, islarge = False,
      tempsize = 2, argsize = 2, method_bytes = [], literals = [],
      lookup_selector = ''<unknown>'', compiledin_class = None, lookup_class = None\<rparr>"

definition empty_frames :: "(int + int) frames" where
  "empty_frames = \<lparr>contexts = Map.empty, context_of = Map.empty, next_context = 0\<rparr>"

definition squeak_constants :: constants where
  "squeak_constants = \<lparr>MTHDCTX_TEMP_FRAME_START = 6, BLKCTX_STACK_START = 6\<rparr>"

text \<open>A method without arguments and temporaries.\<close>

definition no_arg_method :: "(int + int) W_CompiledMethod" where
  "no_arg_method = two_arg_method\<lparr>tempsize := 0, argsize := 0\<rparr>"

text \<open>
  A store with a method context 0, whose temporaries hold 3 and 4 and whose object is
  \<open>Inr 10\<close>, and a block context 1 with that object as its home.
\<close>

definition home_context :: "(int + int) ContextPartShadow" where
  "home_context =
     (ContextPartShadow_init 24)
       \<lparr>ctx_w_self := Some (Inr 10), temps_and_stack := [Inl 3, Inl 4, Inl 0, Inl 0],
        stack_ptr := 2, w_receiver_field := Some (Inr 99),
        w_method_field := Some two_arg_method\<rparr>"

definition block_context :: "(int + int) ContextPartShadow" where
  "block_context =
     (ContextPartShadow_init 8)
       \<lparr>is_block_context := True, temps_and_stack := [Inl 0, Inl 0],
        w_home := Some (Inr 10)\<rparr>"

definition block_frames :: "(int + int) frames" where
  "block_frames =
     \<lparr>contexts = [0 \<mapsto> home_context, 1 \<mapsto> block_context],
      context_of = [Inr 10 \<mapsto> 0], next_context = 2\<rparr>"

text \<open>The strategy factory with specialized storage, and a new object of size 3.\<close>

definition default_factory :: StrategyFactory where
  "default_factory = \<lparr>no_specialized_storage = False\<rparr>"

definition fresh_three :: "oop W_GenericPointersObject" where
  "fresh_three = GenericPointersObject_init default_factory None 3 False"

text \<open>
  A class at the address 1 whose instances have one instance variable, and a collector
  that has reclaimed the object at the address 9 and nothing else.
\<close>

definition collected_nine :: environment where
  "collected_nine = \<lparr>instsize_of = (\<lambda>c. 1), alive = (\<lambda>v. v \<noteq> W_Other 9)\<rparr>"

text \<open>
  A new weak object of that class and of size 4, and stores into it: a reference to the
  object at 7 into the instance variable, and references to the objects at 9 and 8 and
  a small integer into the indexed part.
\<close>

definition fresh_weak :: "oop W_GenericPointersObject" where
  "fresh_weak = GenericPointersObject_init default_factory (Some (W_Other 1)) 4 True"

definition weak_stores :: "(int \<times> oop) list" where
  "weak_stores = [(0, W_Other 7), (1, W_Other 9), (2, W_Other 8), (3, W_SmallInt 5)]"

text \<open>
  The stores of the scenario of the specification: a small integer at index 0, then a
  reference to another object at index 1.
\<close>

definition scenario_stores :: "(int \<times> oop) list" where
  "scenario_stores = [(0, W_SmallInt 5), (1, W_Other 7)]"

section \<open>Verified properties\<close>

lemma intmask_range: "- (2 ^ 31) \<le> intmask n \<and> intmask n < 2 ^ 31"
  unfolding intmask_def
  using signed_take_bit_int_greater_eq_minus_exp [of 31 n]
    signed_take_bit_int_less_exp [of 31 n]
  by simp

lemma upperbound_eq:
  assumes "0 < s"
  shows "intmask (drop_bit s (r_uint (- 1))) = 2 ^ (32 - s) - 1"
proof -
  have "r_uint (- 1) = mask 32" by (simp add: r_uint_def)
  then have d: "drop_bit s (r_uint (- 1)) = (mask (32 - s) :: int)"
    by (simp add: drop_bit_mask_eq)
  have "(mask (32 - s) :: int) < 2 ^ 31"
  proof -
    have "(mask (32 - s) :: int) < 2 ^ (32 - s)" by (simp add: mask_eq_exp_minus_1)
    also have "(2::int) ^ (32 - s) \<le> 2 ^ 31" using assms by (intro power_increasing) auto
    finally show ?thesis .
  qed
  moreover have "- (2 ^ 31) \<le> (mask (32 - s) :: int)"
  proof -
    have "- (2 ^ 31) \<le> (0::int)" by simp
    also have "(0::int) \<le> mask (32 - s)" by simp
    finally show ?thesis .
  qed
  ultimately have "intmask (mask (32 - s)) = mask (32 - s)"
    unfolding intmask_def by (intro signed_take_bit_int_eq_self)
  with d show ?thesis by (simp add: mask_eq_exp_minus_1)
qed

lemma fits_unsigned_iff:
  assumes "0 < s"
  shows "(0 \<le> x \<and> x \<le> intmask (drop_bit s (r_uint (- 1)))) \<longleftrightarrow> (0 \<le> x \<and> x * 2 ^ s < 2 ^ 32)"
proof (cases "s \<le> 32")
  case True
  then have e: "(2::int) ^ 32 = 2 ^ (32 - s) * 2 ^ s"
    by (simp flip: power_add)
  have "x \<le> 2 ^ (32 - s) - 1 \<longleftrightarrow> x * 2 ^ s < 2 ^ (32 - s) * 2 ^ s"
    by simp
  then show ?thesis unfolding upperbound_eq [OF assms] e by blast
next
  case False
  then have u: "intmask (drop_bit s (r_uint (- 1))) = 0"
    using upperbound_eq [OF assms] by simp
  have "x * 2 ^ s < 2 ^ 32 \<longleftrightarrow> x \<le> 0" if "0 \<le> x"
  proof
    assume a: "x * 2 ^ s < 2 ^ 32"
    show "x \<le> 0"
    proof (rule ccontr)
      assume "\<not> x \<le> 0"
      then have "1 \<le> x" by simp
      then have "1 * (2::int) ^ s \<le> x * 2 ^ s" by (intro mult_right_mono) auto
      moreover have "(2::int) ^ 32 \<le> 2 ^ s" using False by (intro power_increasing) auto
      ultimately have "(2::int) ^ 32 \<le> x * 2 ^ s" by linarith
      with a show False by linarith
    qed
  next
    assume "x \<le> 0" with that have "x = 0" by simp
    then show "x * 2 ^ s < 2 ^ 32" by simp
  qed
  with u show ?thesis by auto
qed

lemma r_uint_intmask: "r_uint (intmask n) = r_uint n"
  by (simp add: r_uint_def intmask_def take_bit_signed_take_bit)

subsection \<open>SmallInteger left shift\<close>

text \<open>
  C9. For a small integer receiver and a positive shift: when the receiver is non-negative
  and the shifted value is below \<open>2^32\<close> (the unsigned 32-bit positive range), \<^verbatim>\<open>lshift\<close>
  hands the shifted value to \<^verbatim>\<open>wrap_positive_32bit_int\<close>, and the unsigned reading of
  what it hands over is the exact product, so nothing is lost to overflow. In every other
  case where the exact product leaves the signed 32-bit range, \<^verbatim>\<open>lshift\<close> fails with
  PrimitiveFailedError.
\<close>

theorem lshift_promotes_or_fails:
  fixes space :: "'w objspace"
  assumes "0 < shift"
  shows "(0 \<le> si_value self \<and> si_value self * 2 ^ nat shift < 2 ^ 32 \<longrightarrow>
           SmallInteger_lshift space self shift =
             Inr (wrap_positive_32bit_int space (intmask (si_value self * 2 ^ nat shift)))
           \<and> r_uint (intmask (si_value self * 2 ^ nat shift)) = si_value self * 2 ^ nat shift)
       \<and> (\<not> (0 \<le> si_value self \<and> si_value self * 2 ^ nat shift < 2 ^ 32)
            \<and> (si_value self * 2 ^ nat shift < - (2 ^ 31) \<or> 2 ^ 31 \<le> si_value self * 2 ^ nat shift) \<longrightarrow>
           SmallInteger_lshift space self shift = Inl PrimitiveFailedError)"
proof -
  from assms have s: "0 < nat shift" and ns: "\<not> shift < 0" by auto
  note f = fits_unsigned_iff [OF s, of "si_value self"]
  have u: "r_uint (intmask k) = k" if "0 \<le> k" "k < 2 ^ 32" for k
    using that by (simp add: r_uint_intmask) (simp add: r_uint_def take_bit_int_eq_self)
  show ?thesis
    using f ns u [of "si_value self * 2 ^ nat shift"]
    by (auto simp: SmallInteger_lshift_def Let_def push_bit_eq_mult ovfcheck_def maxint_def)
qed

theorem lshift_promotes_or_fails_witness:
  "(0::int) < 1 \<and> (0::int) < 2
   \<and> SmallInteger_lshift tagging_space (W_SmallInteger_init (2 ^ 30)) 1 = Inr (Inr (- (2 ^ 31)))
   \<and> r_uint (- (2 ^ 31)) = 2 ^ 31
   \<and> SmallInteger_lshift tagging_space (W_SmallInteger_init (2 ^ 30)) 2 = Inl PrimitiveFailedError"
  using lshift_promotes_or_fails [of 1 "W_SmallInteger_init (2 ^ 30)" tagging_space]
    lshift_promotes_or_fails [of 2 "W_SmallInteger_init (2 ^ 30)" tagging_space]
  by (simp add: W_SmallInteger_init_def intmask_def tagging_space_def)

subsection \<open>Identity hash\<close>

lemma hash_draw_range: "- (2 ^ 30) \<le> intmask k div 2 \<and> intmask k div 2 < 2 ^ 30"
proof -
  have "- (2 ^ 31) \<le> intmask k" and "intmask k < 2 ^ 31"
    using intmask_range [of k] by simp_all
  then show ?thesis by simp presburger
qed

text \<open>
  C8, as the code has it. An object starts with the unassigned marker and draws from the
  generator only in \<^verbatim>\<open>gethash\<close>. The first \<^verbatim>\<open>gethash\<close> draws one word and stores
  \<^verbatim>\<open>intmask(word) // 2\<close>, a signed 31-bit value (from \<open>-2^30\<close> up to \<open>2^30 - 1\<close>, so it
  can be negative); every later \<^verbatim>\<open>gethash\<close> returns that value, whatever the generator
  has done meanwhile, and draws nothing.
\<close>

theorem gethash_lazy_signed_stable:
  assumes "hash self = UNASSIGNED_HASH"
    and "gethash g self = (h, g', self')"
  shows "hash fresh_object = UNASSIGNED_HASH
       \<and> drawn g' = Suc (drawn g)
       \<and> - (2 ^ 30) \<le> h \<and> h < 2 ^ 30
       \<and> hash self' = h
       \<and> gethash g2 self' = (h, g2, self')"
proof -
  from assms have h: "h = intmask (uint (stream g (drawn g))) div 2"
    and g': "g' = g\<lparr>drawn := Suc (drawn g)\<rparr>"
    and s': "self' = self\<lparr>hash := h\<rparr>"
    by (auto simp: gethash_def genrand32_def Let_def)
  have r: "- (2 ^ 30) \<le> h \<and> h < 2 ^ 30"
    unfolding h by (rule hash_draw_range)
  then have "h \<noteq> UNASSIGNED_HASH"
    by (simp add: UNASSIGNED_HASH_def maxint_def)
  then have "gethash g2 self' = (h, g2, self')"
    by (simp add: gethash_def s')
  with r g' s' show ?thesis
    by (simp add: fresh_object_def)
qed

lemma gethash_all_ones:
  "gethash all_ones_generator fresh_object
     = (- 1, all_ones_generator\<lparr>drawn := 1\<rparr>, \<lparr>hash = - 1\<rparr>)"
proof -
  have "uint (- 1 :: 32 word) = 4294967295"
    by (simp add: unsigned_minus_1_eq_mask mask_eq_exp_minus_1)
  then have "intmask (uint (- 1 :: 32 word)) div 2 = - 1"
    by (simp add: intmask_def)
  then show ?thesis
    by (simp add: gethash_def genrand32_def all_ones_generator_def all_ones_stream_def
      fresh_object_def Let_def)
qed

theorem gethash_lazy_signed_stable_witness:
  "hash fresh_object = UNASSIGNED_HASH
   \<and> gethash all_ones_generator fresh_object
        = (- 1, all_ones_generator\<lparr>drawn := 1\<rparr>, \<lparr>hash = - 1\<rparr>)
   \<and> gethash all_ones_generator \<lparr>hash = - 1\<rparr> = (- 1, all_ones_generator, \<lparr>hash = - 1\<rparr>)"
  using gethash_lazy_signed_stable [OF _ gethash_all_ones, of all_ones_generator]
    gethash_all_ones
  by (simp add: fresh_object_def)

text \<open>
  The hash is not always non-negative: when the generator draws the word of all ones, the
  first \<^verbatim>\<open>gethash\<close> of a new object returns \<open>-1\<close>.
\<close>

theorem gethash_negative_counterexample:
  "\<not> (0 \<le> fst (gethash all_ones_generator fresh_object))"
  by (simp add: gethash_all_ones)

subsection \<open>Identity of byte objects\<close>

lemma py_index_in_range: "i < n \<Longrightarrow> py_index n (int i) = Some i"
  by (simp add: py_index_def)

lemma getchar_in_range:
  assumes "BytesObject_invariant x" and "int i < bytes_size x"
  shows "\<exists>c. getchar x (int i) = Inr c"
  using assms
  by (auto simp: BytesObject_invariant_def getchar_def py_getitem_def py_index_def raw_getitem_def
      split: option.splits)

lemma has_same_chars_loop_decides:
  assumes "BytesObject_invariant x" and "BytesObject_invariant y"
    and "\<forall>i\<in>set idx. int i < bytes_size x \<and> int i < bytes_size y"
  shows "has_same_chars_loop x y idx
       = Inr (\<forall>i\<in>set idx. getchar x (int i) = getchar y (int i))"
  using assms(3)
proof (induction idx)
  case Nil
  then show ?case by simp
next
  case (Cons i rest)
  then have lx: "int i < bytes_size x" and ly: "int i < bytes_size y"
    by simp_all
  from getchar_in_range [OF assms(1) lx] obtain c where c: "getchar x (int i) = Inr c"
    by blast
  from getchar_in_range [OF assms(2) ly] obtain d where d: "getchar y (int i) = Inr d"
    by blast
  from Cons have ih: "has_same_chars_loop x y rest
       = Inr (\<forall>i\<in>set rest. getchar x (int i) = getchar y (int i))"
    by simp
  show ?case
  proof (cases "c = d")
    case True
    with c d ih show ?thesis by simp
  next
    case False
    with c d show ?thesis by simp
  qed
qed

lemma has_same_chars_decides:
  assumes "BytesObject_invariant x" and "BytesObject_invariant y"
    and "bytes_size x = bytes_size y"
  shows "has_same_chars x y (bytes_size x)
       = Inr (\<forall>i. 0 \<le> i \<and> i < bytes_size x \<longrightarrow> getchar x i = getchar y i)"
proof -
  have "has_same_chars_loop x y [0..<nat (bytes_size x)]
       = Inr (\<forall>i\<in>set [0..<nat (bytes_size x)]. getchar x (int i) = getchar y (int i))"
    by (rule has_same_chars_loop_decides [OF assms(1,2)]) (use assms(3) in auto)
  moreover have "(\<forall>i\<in>set [0..<nat (bytes_size x)]. getchar x (int i) = getchar y (int i))
       \<longleftrightarrow> (\<forall>i. 0 \<le> i \<and> i < bytes_size x \<longrightarrow> getchar x i = getchar y i)"
  proof
    assume l: "\<forall>i\<in>set [0..<nat (bytes_size x)]. getchar x (int i) = getchar y (int i)"
    show "\<forall>i. 0 \<le> i \<and> i < bytes_size x \<longrightarrow> getchar x i = getchar y i"
    proof (intro allI impI)
      fix i :: int
      assume "0 \<le> i \<and> i < bytes_size x"
      then have "nat i \<in> set [0..<nat (bytes_size x)]" and "int (nat i) = i"
        by auto
      with l show "getchar x i = getchar y i" by metis
    qed
  next
    assume "\<forall>i. 0 \<le> i \<and> i < bytes_size x \<longrightarrow> getchar x i = getchar y i"
    then show "\<forall>i\<in>set [0..<nat (bytes_size x)]. getchar x (int i) = getchar y (int i)"
      by auto
  qed
  ultimately show ?thesis by (simp add: has_same_chars_def)
qed

lemma list_backed_equal:
  assumes "bytes x = Some bs" and "bytes y = Some cs"
    and "BytesObject_invariant x" and "BytesObject_invariant y"
    and "bytes_size x = bytes_size y"
    and "\<forall>i. 0 \<le> i \<and> i < bytes_size x \<longrightarrow> getchar x i = getchar y i"
  shows "bs = cs"
proof (rule nth_equalityI)
  from assms show len: "length bs = length cs"
    by (simp add: BytesObject_invariant_def)
  fix i assume i: "i < length bs"
  with assms(1,3) have "0 \<le> int i \<and> int i < bytes_size x"
    by (simp add: BytesObject_invariant_def)
  with assms(6) have "getchar x (int i) = getchar y (int i)" by blast
  with assms(1,2) i len show "bs ! i = cs ! i"
    by (simp add: getchar_def py_getitem_def py_index_in_range)
qed

lemma list_backed_decides:
  assumes "bytes x \<noteq> None" and "bytes y \<noteq> None"
    and "BytesObject_invariant x" and "BytesObject_invariant y"
    and "bytes_size x = bytes_size y"
  shows "bytes x = bytes y
       \<longleftrightarrow> (\<forall>i. 0 \<le> i \<and> i < bytes_size x \<longrightarrow> getchar x i = getchar y i)"
proof
  assume "bytes x = bytes y"
  then show "\<forall>i. 0 \<le> i \<and> i < bytes_size x \<longrightarrow> getchar x i = getchar y i"
    using assms(1) by (auto simp: getchar_def)
next
  assume r: "\<forall>i. 0 \<le> i \<and> i < bytes_size x \<longrightarrow> getchar x i = getchar y i"
  from assms(1,2) obtain bs cs where b: "bytes x = Some bs" "bytes y = Some cs" by auto
  from list_backed_equal [OF b assms(3,4,5) r] b show "bytes x = bytes y" by simp
qed

text \<open>
  C10. On byte objects \<^verbatim>\<open>is_same_object\<close> is equality of content. For a byte object at
  the address \<open>a\<close> and an object at another address \<open>b\<close>: when that object is a byte
  object too, the answer is True exactly when the two have the same size and the same
  character at every index, so two separately allocated byte strings with the same
  characters are the same object, and byte strings of different size or with a differing
  character are not; when it is of any other class, the answer is False.
\<close>

theorem bytes_is_same_object_is_content_equality:
  assumes "objects h a = Some (BytesObject x)"
    and "objects h b = Some y"
    and "a \<noteq> b"
    and "BytesObject_invariant x"
  shows "(\<forall>y'. y = BytesObject y' \<and> BytesObject_invariant y' \<longrightarrow>
            is_same_object h a b
            = Inr (BytesObject_size x = BytesObject_size y'
                   \<and> (\<forall>i. 0 \<le> i \<and> i < BytesObject_size x \<longrightarrow> getchar x i = getchar y' i)))
       \<and> ((\<nexists>y'. y = BytesObject y') \<longrightarrow> is_same_object h a b = Inr False)"
proof (intro conjI allI impI)
  assume "\<nexists>y'. y = BytesObject y'"
  with assms(1,2,3) show "is_same_object h a b = Inr False"
    by (cases y) (auto simp: is_same_object_def BytesObject_is_same_object_def)
next
  fix y'
  assume "y = BytesObject y' \<and> BytesObject_invariant y'"
  then have y: "y = BytesObject y'" and iy: "BytesObject_invariant y'" by simp_all
  let ?content = "\<forall>i. 0 \<le> i \<and> i < bytes_size x \<longrightarrow> getchar x i = getchar y' i"
  show "is_same_object h a b
      = Inr (BytesObject_size x = BytesObject_size y'
             \<and> (\<forall>i. 0 \<le> i \<and> i < BytesObject_size x \<longrightarrow> getchar x i = getchar y' i))"
  proof (cases "bytes_size x = bytes_size y'")
    case False
    with assms(1,2,3) y show ?thesis
      by (simp add: is_same_object_def BytesObject_is_same_object_def BytesObject_size_def)
  next
    case sz: True
    show ?thesis
    proof (cases "bytes_size x > 256 \<and> bytes x \<noteq> None \<and> bytes y' \<noteq> None")
      case True
      then have "bytes x = bytes y' \<longleftrightarrow> ?content"
        using list_backed_decides [OF _ _ assms(4) iy sz] by blast
      with True assms(1,2,3) y sz show ?thesis
        by (simp add: is_same_object_def BytesObject_is_same_object_def BytesObject_size_def)
    next
      case False
      have "has_same_chars x y' (bytes_size x) = Inr ?content"
        by (rule has_same_chars_decides [OF assms(4) iy sz])
      with False assms(1,2,3) y sz show ?thesis
        by (auto simp: is_same_object_def BytesObject_is_same_object_def BytesObject_size_def)
    qed
  qed
qed

lemma string_object_invariant: "BytesObject_invariant (string_object s k)"
  by (simp add: BytesObject_invariant_def string_object_def BytesObject_init_def)

lemma string_object_getchar:
  "getchar (string_object s k) i = py_getitem s i"
  by (simp add: getchar_def string_object_def BytesObject_init_def)

lemma string_object_size: "BytesObject_size (string_object s k) = int (length s)"
  by (simp add: BytesObject_size_def string_object_def BytesObject_init_def)

theorem bytes_is_same_object_is_content_equality_witness:
  "is_same_object string_heap 1 2 = Inr True
   \<and> is_same_object string_heap 1 3 = Inr False
   \<and> is_same_object string_heap 1 4 = Inr False
   \<and> is_same_object string_heap 1 5 = Inr False"
proof -
  have o1: "objects string_heap 1 = Some (BytesObject (string_object ''ab'' 5))"
    and o2: "objects string_heap 2 = Some (BytesObject (string_object ''ab'' 7))"
    and o3: "objects string_heap 3 = Some (BytesObject (string_object ''ac'' 8))"
    and o4: "objects string_heap 4 = Some (BytesObject (string_object ''xyz'' 9))"
    and o5: "objects string_heap 5 = Some (WordsObject (WordsObject_init None 2))"
    by (simp_all add: string_heap_def)
  note inv = string_object_invariant
  have differ: "\<not> (\<forall>i. 0 \<le> i \<and> i < int (length ''ab'') \<longrightarrow> py_getitem ''ab'' i = py_getitem ''ac'' i)"
    by (auto simp: py_getitem_def py_index_def intro!: exI [of _ 1])
  from bytes_is_same_object_is_content_equality [OF o1 o2 _ inv]
  have "is_same_object string_heap 1 2 = Inr True"
    by (simp add: inv string_object_getchar string_object_size)
  moreover from bytes_is_same_object_is_content_equality [OF o1 o3 _ inv] differ
  have "is_same_object string_heap 1 3 = Inr False"
    by (simp add: inv string_object_getchar string_object_size)
  moreover from bytes_is_same_object_is_content_equality [OF o1 o4 _ inv]
  have "is_same_object string_heap 1 4 = Inr False"
    by (simp add: inv string_object_size)
  moreover from bytes_is_same_object_is_content_equality [OF o1 o5]
  have "is_same_object string_heap 1 5 = Inr False"
    by (simp add: inv)
  ultimately show ?thesis by simp
qed

subsection \<open>Bounds of indexed access\<close>

lemma py_index_beyond: "int n \<le> i \<Longrightarrow> py_index n i = None"
  by (simp add: py_index_def)

text \<open>
  Where the accessors do check: an index outside \<open>[0, size)\<close> raises IndexError in
  \<^verbatim>\<open>fetch\<close> and \<^verbatim>\<open>store\<close> of a small slotted object and fails the assertion of
  \<^verbatim>\<open>getword\<close> (so of \<^verbatim>\<open>at0\<close>) of a word object.
  An index at or beyond the size raises
  IndexError in \<^verbatim>\<open>setword\<close> of a list-backed word object, in \<^verbatim>\<open>getchar\<close>,
  \<^verbatim>\<open>at0\<close> and \<^verbatim>\<open>setchar\<close> of a list-backed byte object, and in \<^verbatim>\<open>getchar\<close> and
  \<^verbatim>\<open>at0\<close> of a converted byte object.
\<close>

lemma indexed_access_failures:
  fixes space :: "'w objspace"
  shows "(\<not> (0 \<le> i \<and> i < SmallPointersObject_size p) \<longrightarrow>
            SmallPointersObject_fetch p i = Inl IndexError
            \<and> SmallPointersObject_store p i v = Inl IndexError)
       \<and> (\<not> (0 \<le> i \<and> i < WordsObject_size w) \<longrightarrow>
            getword w i = Inl AssertionError \<and> WordsObject_at0 space w i = Inl AssertionError)
       \<and> (words w = Some ws \<and> WordsObject_size w = int (length ws) \<and> WordsObject_size w \<le> i \<longrightarrow>
            setword w i k = Inl IndexError)
       \<and> (bytes b = Some bs \<and> BytesObject_size b = int (length bs) \<and> BytesObject_size b \<le> i \<longrightarrow>
            getchar b i = Inl IndexError \<and> BytesObject_at0 space b i = Inl IndexError
            \<and> setchar b i c = Inl IndexError)
       \<and> (bytes b = None \<and> BytesObject_size b \<le> i \<longrightarrow>
            getchar b i = Inl IndexError \<and> BytesObject_at0 space b i = Inl IndexError)
       \<and> (LargePositiveInteger1Word_size l \<le> i \<longrightarrow>
            LargePositiveInteger1Word_atput0 space l i v = Inl IndexError)"
  by (auto simp: SmallPointersObject_fetch_def SmallPointersObject_store_def int_between_def
      getword_def WordsObject_at0_def setword_def py_setitem_def py_getitem_def py_index_beyond
      getchar_def BytesObject_at0_def setchar_def LargePositiveInteger1Word_atput0_def
      BytesObject_size_def WordsObject_size_def)

text \<open>
  The 1-word large positive integer at a negative index: the shift by a negative count
  raises ValueError in \<^verbatim>\<open>at0\<close>, and \<^verbatim>\<open>atput0\<close> fails at the latest there.
\<close>

lemma lpi_negative_index_fails:
  fixes space :: "'w objspace"
  assumes "i < 0"
  shows "LargePositiveInteger1Word_at0 space l i = Inl ValueError"
    and "\<exists>e. LargePositiveInteger1Word_atput0 space l i v = Inl e"
proof -
  from assms have neg: "i * 8 < 0" by simp
  then show "LargePositiveInteger1Word_at0 space l i = Inl ValueError"
    by (simp add: LargePositiveInteger1Word_at0_def py_rshift_def)
  show "\<exists>e. LargePositiveInteger1Word_atput0 space l i v = Inl e"
  proof (cases "unwrap_int space v")
    case (Inl e)
    then show ?thesis
      by (simp add: LargePositiveInteger1Word_atput0_def)
  next
    case (Inr byte)
    from neg have "py_lshift 255 (i * 8) = Inl ValueError"
      by (simp add: py_lshift_def)
    with Inr show ?thesis
      by (simp add: LargePositiveInteger1Word_atput0_def Let_def)
  qed
qed

text \<open>
  C7. \<^verbatim>\<open>W_LargePositiveInteger1Word.at0\<close> checks no bound, while \<^verbatim>\<open>atput0\<close> of the
  same class, two lines below it, raises IndexError for \<^verbatim>\<open>index0 >= self.size()\<close>. On
  the integer 1 of size 4, \<^verbatim>\<open>at0\<close> at the index 4 (and at any index beyond) returns a
  wrapped 0 instead of failing, where \<^verbatim>\<open>atput0\<close> at the same index raises IndexError.
  A negative index does not fail either where the value is kept in a Python list, which
  counts it from the end: \<^verbatim>\<open>getchar(-1)\<close> of the byte object \<^verbatim>\<open>'ab'\<close> returns
  \<^verbatim>\<open>'b'\<close>, and \<^verbatim>\<open>setword(-1, 7)\<close> of a word object of size 2 writes its last word.
\<close>

theorem indexed_access_evaluation:
  "LargePositiveInteger1Word_size (LargePositiveInteger1Word_init 1 4) = 4
   \<and> LargePositiveInteger1Word_at0 tagging_space (LargePositiveInteger1Word_init 1 4) 4
       = Inr (wrap_int tagging_space 0)
   \<and> LargePositiveInteger1Word_at0 tagging_space (LargePositiveInteger1Word_init 1 4) 1000
       = Inr (wrap_int tagging_space 0)
   \<and> LargePositiveInteger1Word_atput0 tagging_space (LargePositiveInteger1Word_init 1 4) 4 (Inl 1)
       = Inl IndexError
   \<and> BytesObject_size (string_object ''ab'' 5) = 2
   \<and> getchar (string_object ''ab'' 5) (- 1) = Inr (CHR ''b'')
   \<and> BytesObject_at0 tagging_space
        ((BytesObject_init None 2)\<lparr>bytes := Some ''ab''\<rparr>) (- 1) = Inr (wrap_int tagging_space 98)
   \<and> WordsObject_size (WordsObject_init None 2 :: int W_WordsObject) = 2
   \<and> setword (WordsObject_init None 2 :: int W_WordsObject) (- 1) 7
       = Inr ((WordsObject_init None 2)\<lparr>words := Some [0, 7]\<rparr>)"
  by (simp add: LargePositiveInteger1Word_size_def LargePositiveInteger1Word_init_def
      LargePositiveInteger1Word_at0_def LargePositiveInteger1Word_atput0_def
      py_rshift_def intmask_def tagging_space_def drop_bit_eq_div
      BytesObject_size_def string_object_def BytesObject_init_def getchar_def BytesObject_at0_def
      py_getitem_def py_index_def py_ord_def
      WordsObject_size_def WordsObject_init_def setword_def py_setitem_def r_uint_def
      numeral_2_eq_2)

subsection \<open>become\<close>

lemma is_same_object_refl:
  assumes "objects h a = Some x"
  shows "is_same_object h a a = Inr True \<or> (\<exists>s. x = SmallInteger s)"
  using assms
  by (cases x)
    (auto simp: is_same_object_def Float_is_same_object_def float_eq_def
      BytesObject_is_same_object_def)

lemma dispatch_become_exchanges:
  assumes "dispatch_become h a x b y = (None, h')" and "a \<noteq> b"
  shows "objects h' a = Some (exchanged_for x y)
       \<and> objects h' b = Some (exchanged_for y x)
       \<and> (\<forall>c. c \<noteq> a \<and> c \<noteq> b \<longrightarrow> objects h' c = objects h c)"
proof (cases x)
  case (SmallInteger s)
  with assms show ?thesis by (simp add: dispatch_become_def)
next
  case (LargePositiveInteger1Word x1)
  with assms show ?thesis
    by (cases y) (auto simp: dispatch_become_def put2_def exchanged_for_def LargePositiveInteger1Word__become_def)
next
  case (Float x1)
  with assms show ?thesis
    by (cases y) (auto simp: dispatch_become_def put2_def exchanged_for_def Float__become_def)
next
  case (PointersObjectNoFields x1)
  with assms show ?thesis
    by (cases y) (auto simp: dispatch_become_def put2_def exchanged_for_def PointersObjectNoFields__become_def)
next
  case (SmallPointersObject x1)
  with assms show ?thesis
    by (cases y) (auto simp: dispatch_become_def put2_def exchanged_for_def SmallPointersObject__become_def)
next
  case (GenericPointersObject x1)
  with assms show ?thesis
    by (cases y) (auto simp: dispatch_become_def put2_def exchanged_for_def GenericPointersObject__become_def
        ShadowMixin_become_def Let_def split: option.splits strategy.splits)
next
  case (BytesObject x1)
  with assms show ?thesis
    by (cases y) (auto simp: dispatch_become_def put2_def exchanged_for_def BytesObject__become_def
        Let_def split: if_splits)
next
  case (WordsObject x1)
  with assms show ?thesis
    by (cases y) (auto simp: dispatch_become_def put2_def exchanged_for_def WordsObject__become_def
        Let_def split: if_splits)
next
  case (CompiledMethod x1)
  with assms show ?thesis
    by (cases y) (auto simp: dispatch_become_def put2_def exchanged_for_def CompiledMethod__become_def)
qed

text \<open>
  What \<^verbatim>\<open>become\<close> does when it returns True: the two objects are distinct and of the
  same class; the address of A then holds the object that B was, identity hash included,
  and the other way round, except that a method keeps its own \<^verbatim>\<open>lookup_class\<close>; no
  other object changes. Every reference to the address of A therefore sees the former
  object of B.
\<close>

lemma become_True_exchanges:
  assumes "become h a b = (Inr True, h')"
  shows "a \<noteq> b
       \<and> (\<exists>x y. objects h a = Some x \<and> objects h b = Some y \<and> class_of x = class_of y
            \<and> objects h' a = Some (exchanged_for x y)
            \<and> objects h' b = Some (exchanged_for y x))
       \<and> (\<forall>c. c \<noteq> a \<and> c \<noteq> b \<longrightarrow> objects h' c = objects h c)"
proof -
  from assms obtain x y where x: "objects h a = Some x" and y: "objects h b = Some y"
    by (auto simp: become_def split: option.splits)
  from assms x y have ns: "\<nexists>s. x = SmallInteger s"
    by (auto simp: become_def)
  from assms x y ns have cb: "can_become x y"
    by (cases x) (auto simp: become_def split: if_splits)
  from assms x y ns cb have so: "is_same_object h a b = Inr False"
    by (cases x) (auto simp: become_def split: if_splits sum.splits bool.splits)
  from assms x y ns cb so have d: "dispatch_become h a x b y = (None, h')"
    by (cases x) (auto simp: become_def split: prod.splits option.splits)
  from so is_same_object_refl [OF x] ns have ab: "a \<noteq> b"
    by auto
  from dispatch_become_exchanges [OF d ab] x y cb ab show ?thesis
    by (simp add: can_become_def)
qed

text \<open>Objects of different classes: \<^verbatim>\<open>become\<close> returns False and changes nothing.\<close>

lemma become_different_classes:
  assumes "objects h a = Some x" and "objects h b = Some y" and "class_of x \<noteq> class_of y"
  shows "become h a b = (Inr False, h)"
  using assms by (cases x) (simp_all add: become_def can_become_def)

text \<open>
  Byte objects of which one was never converted to the C layout: \<^verbatim>\<open>become\<close> raises
  AttributeError and leaves the two lists exchanged, everything else in place.
\<close>

lemma become_unconverted_bytes:
  assumes "objects h a = Some (BytesObject x)" and "objects h b = Some (BytesObject y)"
    and "is_same_object h a b = Inr False"
    and "c_bytes x = None \<or> c_bytes y = None"
  shows "become h a b
       = (Inl AttributeError,
          put2 h a (BytesObject (x\<lparr>bytes := bytes y\<rparr>)) b (BytesObject (y\<lparr>bytes := bytes x\<rparr>)))"
  using assms
  by (auto simp: become_def can_become_def dispatch_become_def BytesObject__become_def Let_def)

lemma become_lpi_heap: "become lpi_heap 1 2 = (Inr True, lpi_heap_swapped)"
  by (simp add: become_def lpi_heap_def lpi_heap_swapped_def can_become_def is_same_object_def
      dispatch_become_def LargePositiveInteger1Word__become_def put2_def
      LargePositiveInteger1Word_init_def)

text \<open>
  C2. Two defects of \<^verbatim>\<open>become\<close>, each at a concrete object memory.
  On the two methods, \<^verbatim>\<open>become\<close> returns True and exchanges every field, among them
  \<^verbatim>\<open>lookup_selector\<close>, but not \<^verbatim>\<open>lookup_class\<close>: the address 1 then holds the method
  \<^verbatim>\<open>bar\<close> with the lookup class 7 of \<^verbatim>\<open>foo\<close>, which is not the object that was at the
  address 2.
  On the byte objects \<^verbatim>\<open>'ab'\<close> and \<^verbatim>\<open>'xyz'\<close>, neither of them converted to the C
  layout, \<^verbatim>\<open>become\<close> neither returns True nor False: it raises AttributeError when it
  reads \<^verbatim>\<open>c_bytes\<close>, and leaves the lists exchanged and the sizes and hashes in place,
  so that the object at the address 1 has the three characters \<^verbatim>\<open>'xyz'\<close> and the size 2.
\<close>

theorem become_evaluation:
  "become method_heap 1 2
     = (Inr True,
        method_heap\<lparr>objects := (objects method_heap)
          (1 \<mapsto> CompiledMethod (bar_method\<lparr>lookup_class := Some 7\<rparr>),
           2 \<mapsto> CompiledMethod (foo_method\<lparr>lookup_class := Some 8\<rparr>))\<rparr>)
   \<and> objects method_heap 2 = Some (CompiledMethod bar_method)
   \<and> CompiledMethod (bar_method\<lparr>lookup_class := Some 7\<rparr>) \<noteq> CompiledMethod bar_method
   \<and> become string_heap 1 4
     = (Inl AttributeError,
        string_heap\<lparr>objects := (objects string_heap)
          (1 \<mapsto> BytesObject ((string_object ''ab'' 5)\<lparr>bytes := Some ''xyz''\<rparr>),
           4 \<mapsto> BytesObject ((string_object ''xyz'' 9)\<lparr>bytes := Some ''ab''\<rparr>))\<rparr>)
   \<and> BytesObject_size ((string_object ''ab'' 5)\<lparr>bytes := Some ''xyz''\<rparr>) = 2"
proof -
  have "become method_heap 1 2
     = (Inr True,
        method_heap\<lparr>objects := (objects method_heap)
          (1 \<mapsto> CompiledMethod (bar_method\<lparr>lookup_class := Some 7\<rparr>),
           2 \<mapsto> CompiledMethod (foo_method\<lparr>lookup_class := Some 8\<rparr>))\<rparr>)"
    by (simp add: become_def method_heap_def can_become_def is_same_object_def
        dispatch_become_def CompiledMethod__become_def put2_def foo_method_def bar_method_def)
  moreover have "objects method_heap 2 = Some (CompiledMethod bar_method)"
    by (simp add: method_heap_def)
  moreover have "CompiledMethod (bar_method\<lparr>lookup_class := Some 7\<rparr>) \<noteq> CompiledMethod bar_method"
    by (simp add: bar_method_def)
  moreover have "is_same_object string_heap 1 4 = Inr False"
    by (simp add: is_same_object_def BytesObject_is_same_object_def string_heap_def
        BytesObject_size_def string_object_def BytesObject_init_def)
  then have "become string_heap 1 4
     = (Inl AttributeError,
        string_heap\<lparr>objects := (objects string_heap)
          (1 \<mapsto> BytesObject ((string_object ''ab'' 5)\<lparr>bytes := Some ''xyz''\<rparr>),
           4 \<mapsto> BytesObject ((string_object ''xyz'' 9)\<lparr>bytes := Some ''ab''\<rparr>))\<rparr>)"
    by (simp add: become_def can_become_def dispatch_become_def BytesObject__become_def
        put2_def string_heap_def string_object_def BytesObject_init_def)
  moreover have "BytesObject_size ((string_object ''ab'' 5)\<lparr>bytes := Some ''xyz''\<rparr>) = 2"
    by (simp add: BytesObject_size_def string_object_def BytesObject_init_def)
  ultimately show ?thesis by blast
qed

subsection \<open>Contexts: temporaries and operand stack\<close>

lemma gettemp_method:
  assumes "get_context st c = Inr self" and "\<not> pure_is_block_context space self"
  shows "gettemp space st c i = Some (gettemp_method_context self i)"
  using assms by (subst gettemp.simps) simp

lemma settemp_method:
  assumes "get_context st c = Inr self" and "\<not> pure_is_block_context space self"
  shows "settemp space st c i v =
           (case settemp_method_context self i v of
              Inl e \<Rightarrow> Some (Inl e)
            | Inr self1 \<Rightarrow> Some (Inr (put_context st c self1)))"
  using assms by (subst settemp.simps) simp

lemma get_put_context: "get_context (put_context st c ctx) c = Inr ctx"
  by (simp add: get_context_def put_context_def)

lemma put_put_context: "put_context (put_context st c x) c y = put_context st c y"
  by (simp add: put_context_def)

lemma py_index_nat: "0 \<le> i \<Longrightarrow> i < int n \<Longrightarrow> py_index n i = Some (nat i)"
  by (simp add: py_index_def)

lemma stack_put_in_range:
  assumes "0 \<le> i" and "i < int (length (temps_and_stack self))"
  shows "stack_put self i v = Inr (self\<lparr>temps_and_stack := (temps_and_stack self)[nat i := v]\<rparr>)"
  using assms by (simp add: stack_put_def py_setitem_def py_index_nat)

lemma stack_get_in_range:
  assumes "0 \<le> i" and "i < int (length (temps_and_stack self))"
  shows "stack_get self i = Inr (temps_and_stack self ! nat i)"
  using assms by (simp add: stack_get_def py_getitem_def py_index_nat)

lemma settemp_in_range:
  assumes "get_context st c = Inr self" and "\<not> pure_is_block_context space self"
    and "0 \<le> i" and "i < int (length (temps_and_stack self))"
  shows "settemp space st c i v =
           Some (Inr (put_context st c (self\<lparr>temps_and_stack := (temps_and_stack self)[nat i := v]\<rparr>)))"
  using assms
  by (simp add: settemp_method settemp_method_context_def stack_put_in_range)

lemma gettemp_in_range:
  assumes "get_context st c = Inr self" and "\<not> pure_is_block_context space self"
    and "0 \<le> i" and "i < int (length (temps_and_stack self))"
  shows "gettemp space st c i = Some (Inr (temps_and_stack self ! nat i))"
  using assms
  by (simp add: gettemp_method gettemp_method_context_def stack_get_in_range)

lemma pure_is_block_context_update [simp]:
  "pure_is_block_context space (self\<lparr>temps_and_stack := b\<rparr>) = pure_is_block_context space self"
  "pure_is_block_context space (self\<lparr>stack_ptr := p\<rparr>) = pure_is_block_context space self"
  by (simp_all add: pure_is_block_context_def)

lemma settemp_all_two:
  assumes g: "get_context st c = Inr self" and np: "\<not> pure_is_block_context space self"
    and len: "2 \<le> length (temps_and_stack self)"
  shows "settemp_all space st c 0 [a0, a1] =
           Some (Inr (put_context st c
             (self\<lparr>temps_and_stack := (temps_and_stack self)[0 := a0, 1 := a1]\<rparr>)))"
proof -
  let ?s1 = "self\<lparr>temps_and_stack := (temps_and_stack self)[0 := a0]\<rparr>"
  have "settemp space st c 0 a0 =
      Some (Inr (put_context st c (self\<lparr>temps_and_stack := (temps_and_stack self)[nat 0 := a0]\<rparr>)))"
    by (rule settemp_in_range [OF g np]) (use len in auto)
  then have s0: "settemp space st c 0 a0 = Some (Inr (put_context st c ?s1))"
    by simp
  have "settemp space (put_context st c ?s1) c 1 a1 =
      Some (Inr (put_context (put_context st c ?s1) c
        (?s1\<lparr>temps_and_stack := (temps_and_stack ?s1)[nat 1 := a1]\<rparr>)))"
    by (rule settemp_in_range [OF get_put_context]) (use np len in auto)
  then have s1: "settemp space (put_context st c ?s1) c (0 + 1) a1 =
      Some (Inr (put_context st c
        (self\<lparr>temps_and_stack := (temps_and_stack self)[0 := a0, 1 := a1]\<rparr>)))"
    by (simp add: put_put_context)
  show ?thesis
    unfolding settemp_all.simps s0 option.case sum.case s1 ..
qed

lemma build_two_args:
  assumes a: "argsize m = 2"
  shows "\<exists>st1 self. build_method_context space k st m rcvr [a0, a1] None fb
                      = Some (Inr (next_context st, st1))
           \<and> get_context st1 (next_context st) = Inr self
           \<and> \<not> pure_is_block_context space self
           \<and> temps_and_stack self
               = (replicate (nat (compute_frame_size m)) (w_nil space))[0 := a0, 1 := a1]
           \<and> stack_ptr self = tempsize m"
proof -
  let ?c = "next_context st"
  let ?fs = "compute_frame_size m"
  let ?buf = "replicate (nat ?fs) (w_nil space)"
  let ?arg = "store_w_method (store_w_receiver
        ((ContextPartShadow_init (?fs + MethodContext_instsize space))
           \<lparr>is_block_context := False, s_fallback := fb\<rparr>) rcvr) m \<lparr>closure := None\<rparr>"
  let ?st0 = "st\<lparr>next_context := Suc ?c\<rparr>"
  have fs: "18 \<le> ?fs" using a by (simp add: compute_frame_size_def)
  obtain ctx0 where init: "init_temps_and_stack space k ?arg = Inr ctx0"
    and np: "\<not> pure_is_block_context space ctx0"
    and cl: "closure ctx0 = None"
    and buf: "temps_and_stack ctx0 = ?buf"
    and sp: "stack_ptr ctx0 = tempsize m"
    by (simp add: init_temps_and_stack_def full_stacksize_def store_w_method_def
        store_w_receiver_def ContextPartShadow_init_def w_method_method_context_def
        ctx_tempsize_def pure_is_block_context_def tempsize_method_context_def
        CompiledMethod_tempsize_def Let_def)
  let ?st1 = "put_context ?st0 ?c ctx0"
  let ?ctx1 = "ctx0\<lparr>temps_and_stack := (temps_and_stack ctx0)[0 := a0, 1 := a1]\<rparr>"
  have len: "2 \<le> length (temps_and_stack ctx0)" using fs buf by simp
  have it: "initialize_temps space ?st1 ?c [a0, a1] = Some (Inr (put_context ?st1 ?c ?ctx1))"
    unfolding initialize_temps_def Let_def
      settemp_all_two [OF get_put_context np len]
    using cl by (simp add: get_put_context)
  have "build_method_context space k st m rcvr [a0, a1] None fb
          = Some (Inr (?c, put_context ?st1 ?c ?ctx1))"
    unfolding build_method_context_def Let_def init
    by (simp add: it)
  moreover have "get_context (put_context ?st1 ?c ?ctx1) ?c = Inr ?ctx1"
    by (rule get_put_context)
  moreover have "\<not> pure_is_block_context space ?ctx1" using np by simp
  moreover have "temps_and_stack ?ctx1 = ?buf[0 := a0, 1 := a1]" using buf by simp
  moreover have "stack_ptr ?ctx1 = tempsize m" using sp by simp
  ultimately show ?thesis by blast
qed

lemma push_at_props:
  assumes g: "get_context st c = Inr self"
    and r: "0 \<le> stack_ptr self" "stack_ptr self < int (length (temps_and_stack self))"
  shows "\<exists>st2 self2. push_at st c v = Inr st2
           \<and> get_context st2 c = Inr self2
           \<and> temps_and_stack self2 = (temps_and_stack self)[nat (stack_ptr self) := v]
           \<and> stack_ptr self2 = stack_ptr self + 1
           \<and> pure_is_block_context space self2 = pure_is_block_context space self"
proof -
  let ?s2 = "self\<lparr>temps_and_stack := (temps_and_stack self)[nat (stack_ptr self) := v],
                   stack_ptr := stack_ptr self + 1\<rparr>"
  have "push_at st c v = Inr (put_context st c ?s2)"
    using g r by (simp add: push_at_def push_def Let_def stack_put_in_range)
  moreover have "get_context (put_context st c ?s2) c = Inr ?s2"
    by (rule get_put_context)
  ultimately show ?thesis
    by (intro exI [of _ "put_context st c ?s2"] exI [of _ ?s2])
      (simp add: pure_is_block_context_def)
qed

lemma pop_props:
  assumes g: "get_context st c = Inr self"
    and r: "1 \<le> stack_ptr self" "stack_ptr self \<le> int (length (temps_and_stack self))"
  shows "\<exists>st3 self3. pop space st c
             = Some (Inr (temps_and_stack self ! nat (stack_ptr self - 1), st3))
           \<and> get_context st3 c = Inr self3
           \<and> temps_and_stack self3 = temps_and_stack self
           \<and> stack_ptr self3 = stack_ptr self - 1
           \<and> pure_is_block_context space self3 = pure_is_block_context space self"
proof -
  let ?s3 = "self\<lparr>stack_ptr := stack_ptr self - 1\<rparr>"
  have "pop space st c
          = Some (Inr (temps_and_stack self ! nat (stack_ptr self - 1), put_context st c ?s3))"
    using g r by (simp add: pop_def Let_def stack_get_in_range)
  moreover have "get_context (put_context st c ?s3) c = Inr ?s3"
    by (rule get_put_context)
  ultimately show ?thesis
    by (intro exI [of _ "put_context st c ?s3"] exI [of _ ?s3])
      (simp add: pure_is_block_context_def)
qed

text \<open>
  C4, as the code has it. For every method with two arguments whose temporaries fit its
  frame, the scenario returns 3 and 4 for the temporaries 0 and 1 and 7 for the pop, and
  the final \<^verbatim>\<open>stackdepth()\<close> is the number of temporaries of the method: the stack
  pointer starts after the temporaries and counts them. The frame has
  \<open>16 + 40 * islarge + argsize\<close> slots whatever the method asks for.
\<close>

theorem method_context_scenario_result:
  assumes a: "argsize m = 2"
    and t: "2 \<le> tempsize m" "tempsize m < compute_frame_size m"
  shows "method_context_scenario space k st m rcvr =
           Some (Inr (wrap_int space 3, wrap_int space 4, wrap_int space 7, tempsize m))"
proof -
  let ?c = "next_context st"
  let ?fs = "compute_frame_size m"
  have fs: "18 \<le> ?fs" using a by (simp add: compute_frame_size_def)
  from build_two_args [OF a, of space k st rcvr "wrap_int space 3" "wrap_int space 4" None]
  obtain st1 self1 where
    b: "build_method_context space k st m rcvr [wrap_int space 3, wrap_int space 4] None None
          = Some (Inr (?c, st1))"
    and g1: "get_context st1 ?c = Inr self1"
    and np: "\<not> pure_is_block_context space self1"
    and buf: "temps_and_stack self1
               = (replicate (nat ?fs) (w_nil space))[0 := wrap_int space 3, 1 := wrap_int space 4]"
    and sp: "stack_ptr self1 = tempsize m"
    by blast
  have len: "length (temps_and_stack self1) = nat ?fs" using buf by simp
  have t0: "gettemp space st1 ?c 0 = Some (Inr (wrap_int space 3))"
    using gettemp_in_range [OF g1 np, of 0] fs buf by simp
  have t1: "gettemp space st1 ?c 1 = Some (Inr (wrap_int space 4))"
    using gettemp_in_range [OF g1 np, of 1] fs buf by simp
  from push_at_props [OF g1, of "wrap_int space 7" space] t sp len
  obtain st2 self2 where
    p: "push_at st1 ?c (wrap_int space 7) = Inr st2"
    and g2: "get_context st2 ?c = Inr self2"
    and buf2: "temps_and_stack self2 = (temps_and_stack self1)[nat (tempsize m) := wrap_int space 7]"
    and sp2: "stack_ptr self2 = tempsize m + 1"
    by auto
  have len2: "length (temps_and_stack self2) = nat ?fs" using buf2 len by simp
  from pop_props [OF g2, of space] t sp2 len2
  obtain st3 self3 where
    q: "pop space st2 ?c = Some (Inr (temps_and_stack self2 ! nat (stack_ptr self2 - 1), st3))"
    and g3: "get_context st3 ?c = Inr self3"
    and sp3: "stack_ptr self3 = stack_ptr self2 - 1"
    by auto
  have top: "temps_and_stack self2 ! nat (stack_ptr self2 - 1) = wrap_int space 7"
    using t sp2 buf2 len by simp
  have d: "stackdepth_at st3 ?c = Inr (tempsize m)"
    using g3 sp3 sp2 by (simp add: stackdepth_at_def stackdepth_def)
  show ?thesis
    unfolding method_context_scenario_def b
    using t0 t1 p q top d by simp
qed

theorem method_context_scenario_result_witness:
  "argsize two_arg_method = 2 \<and> 2 \<le> tempsize two_arg_method
   \<and> tempsize two_arg_method < compute_frame_size two_arg_method
   \<and> method_context_scenario tagging_space squeak_constants empty_frames two_arg_method (Inr 99)
       = Some (Inr (Inl 3, Inl 4, Inl 7, 2))"
  using method_context_scenario_result [of two_arg_method tagging_space squeak_constants
      empty_frames "Inr 99"]
  by (simp add: two_arg_method_def compute_frame_size_def tagging_space_def)

text \<open>
  For a method with two arguments and no other temporary, the last call of the scenario
  returns 2.
\<close>

theorem stackdepth_counts_temps_counterexample:
  "method_context_scenario tagging_space squeak_constants empty_frames two_arg_method (Inr 99)
     = Some (Inr (Inl 3, Inl 4, Inl 7, 2))
   \<and> method_context_scenario tagging_space squeak_constants empty_frames two_arg_method (Inr 99)
     \<noteq> Some (Inr (Inl 3, Inl 4, Inl 7, 0))"
  by code_simp

text \<open>
  C5. Built for a method without temporaries, a context has its stack pointer at 0; its
  \<^verbatim>\<open>pop\<close> looks up the receiver and then fails the assertion \<^verbatim>\<open>ptr >= 0\<close>.
  Built for the two arguments 3 and 4 with receiver \<open>Inr 99\<close>, a context pops its last
  temporary 4 from the empty operand stack; the following push of 7 and pop return 7,
  and the temporaries are 3 and 7 afterwards.
\<close>

theorem empty_stack_pop_evaluation:
  "empty_stack_pop_scenario tagging_space squeak_constants empty_frames no_arg_method (Inr 99)
       [] (Inl 7) = Some (Inl AssertionError)
   \<and> empty_stack_pop_scenario tagging_space squeak_constants empty_frames two_arg_method (Inr 99)
       [Inl 3, Inl 4] (Inl 7) = Some (Inr (Inl 4, Inl 7, [Inl 3, Inl 7]))"
  by code_simp

lemma gettemp_block:
  assumes "get_context st b = Inr blk" and "pure_is_block_context space blk"
    and "s_home_block_context st blk = Inr h"
  shows "gettemp space st b k = gettemp space st h k"
  using assms by (subst gettemp.simps) simp

lemma settemp_block:
  assumes "get_context st b = Inr blk" and "pure_is_block_context space blk"
    and "s_home_block_context st blk = Inr h"
  shows "settemp space st b k v = settemp space st h k v"
  using assms by (subst settemp.simps) simp

text \<open>
  Whether a context is a block context is decided by \<^verbatim>\<open>pure_is_block_context()\<close>
  wherever the code asks: \<^verbatim>\<open>s_home\<close>, \<^verbatim>\<open>gettemp\<close>, \<^verbatim>\<open>settemp\<close>, \<^verbatim>\<open>fetch\<close>
  and \<^verbatim>\<open>store\<close> all dispatch on it. In an object space that does not use block
  contexts it never holds, and no block context with a home comes into being there:
  \<^verbatim>\<open>_w_home\<close> is written by \<^verbatim>\<open>store_block_context\<close>, to which \<^verbatim>\<open>store\<close> dispatches
  only when \<^verbatim>\<open>pure_is_block_context()\<close> holds, and by \<^verbatim>\<open>build_block_context\<close>, whose
  last call \<^verbatim>\<open>init_temps_and_stack()\<close> fails in such a space: the new context has no
  method, and \<^verbatim>\<open>tempsize()\<close> asks for the one of a method context.
\<close>

lemma no_block_context_without_flag:
  "\<not> uses_block_contexts space \<Longrightarrow> \<not> pure_is_block_context space self"
  by (simp add: pure_is_block_context_def)

lemma build_block_context_needs_flag:
  assumes "\<not> uses_block_contexts space"
  shows "init_temps_and_stack space k
           ((ContextPartShadow_init sz)
              \<lparr>ctx_w_self := Some w, is_block_context := True, eargc := argcnt,
               w_home := Some hw, initialip := ip, pc := ip\<rparr>)
         = Inl AssertionError"
  using assms
  by (simp add: init_temps_and_stack_def full_stacksize_def ctx_tempsize_def
      pure_is_block_context_def tempsize_method_context_def w_method_method_context_def
      ContextPartShadow_init_def Let_def)

text \<open>
  C6. For every block context \<open>b\<close> (a context for which \<^verbatim>\<open>pure_is_block_context()\<close>
  holds) whose home, the shadow of its \<^verbatim>\<open>_w_home\<close>, is the method context \<open>h\<close>, and for
  every index within the buffer of \<open>h\<close> (every temporary index is one): \<^verbatim>\<open>settemp\<close> on
  the block context returns, and \<^verbatim>\<open>gettemp\<close> on \<open>h\<close> then returns the value written.
  The block context has no copy of the temporaries of its own.
\<close>

theorem block_settemp_writes_home:
  assumes b: "get_context st b = Inr blk" "pure_is_block_context space blk"
    and sh: "s_home_block_context st blk = Inr h"
    and h: "get_context st h = Inr home" "\<not> pure_is_block_context space home"
    and k: "0 \<le> k" "k < int (length (temps_and_stack home))"
  shows "\<exists>st1. settemp space st b k v = Some (Inr st1)
           \<and> gettemp space st1 h k = Some (Inr v)
           \<and> settemp_then_gettemp space st b h k v = Some (Inr v)"
proof -
  let ?home1 = "home\<lparr>temps_and_stack := (temps_and_stack home)[nat k := v]\<rparr>"
  let ?st1 = "put_context st h ?home1"
  have ph1: "\<not> pure_is_block_context space ?home1"
    using h(2) by simp
  have s: "settemp space st b k v = Some (Inr ?st1)"
    unfolding settemp_block [OF b sh]
    by (rule settemp_in_range [OF h k])
  have "gettemp space ?st1 h k = Some (Inr (temps_and_stack ?home1 ! nat k))"
    by (rule gettemp_in_range [OF get_put_context ph1]) (use k in simp_all)
  then have g: "gettemp space ?st1 h k = Some (Inr v)"
    using k by simp
  show ?thesis
    by (intro exI [of _ ?st1]) (simp add: s g settemp_then_gettemp_def)
qed

theorem block_settemp_writes_home_witness:
  "pure_is_block_context tagging_space block_context
   \<and> s_home_block_context block_frames block_context = Inr 0
   \<and> settemp_then_gettemp tagging_space block_frames 1 0 0 (Inl 7) = Some (Inr (Inl 7))"
proof -
  have b: "get_context block_frames 1 = Inr block_context"
    "pure_is_block_context tagging_space block_context"
    by (simp_all add: get_context_def block_frames_def block_context_def
        pure_is_block_context_def tagging_space_def)
  have sh: "s_home_block_context block_frames block_context = Inr 0"
    by (simp add: s_home_block_context_def as_context_get_shadow_def block_frames_def
        block_context_def)
  have h: "get_context block_frames 0 = Inr home_context"
    "\<not> pure_is_block_context tagging_space home_context"
    by (simp_all add: get_context_def block_frames_def home_context_def ContextPartShadow_init_def
        pure_is_block_context_def)
  have k: "(0::int) \<le> 0" "0 < int (length (temps_and_stack home_context))"
    by (simp_all add: home_context_def)
  from block_settemp_writes_home [OF b sh h k, of "Inl 7"]
  have "settemp_then_gettemp tagging_space block_frames 1 0 0 (Inl 7) = Some (Inr (Inl 7))"
    by blast
  with b(2) sh show ?thesis by simp
qed

subsection \<open>Storage strategies\<close>

lemma more_general_or_same_iff:
  "more_general_or_same s t \<longleftrightarrow>
     t = s
     \<or> (s = AllNilStrategy \<and> t \<in> {SmallIntegerOrNilStrategy, FloatOrNilStrategy, ListStrategy})
     \<or> (s \<in> {SmallIntegerOrNilStrategy, FloatOrNilStrategy} \<and> t = ListStrategy)"
  by (cases s) (auto simp: more_general_or_same_def)

lemma more_general_or_same_trans:
  "more_general_or_same s t \<Longrightarrow> more_general_or_same t u \<Longrightarrow> more_general_or_same s u"
  by (auto simp: more_general_or_same_iff)

lemma more_general_or_same_antisym:
  "more_general_or_same s t \<Longrightarrow> more_general_or_same t s \<Longrightarrow> s = t"
  by (auto simp: more_general_or_same_iff)

lemma store_handled:
  assumes "strategy w = Some s" and "check_can_handle s v"
  shows "GenericPointersObject_store env w i v =
           (case store_slot env w s i v of
              Inl e \<Rightarrow> (w, Some e)
            | Inr sto \<Rightarrow> (w\<lparr>storage := sto\<rparr>, None))"
  using assms by (subst GenericPointersObject_store.simps) simp

lemma store_unhandled:
  assumes "strategy w = Some s" and "\<not> check_can_handle s v"
  shows "GenericPointersObject_store env w i v =
           (case generalize_for_value env w s v of
              Inl e \<Rightarrow> (w, Some e)
            | Inr w_new \<Rightarrow> GenericPointersObject_store env w_new i v)"
  using assms by (subst GenericPointersObject_store.simps) simp

lemma generalize_for_value_member:
  assumes "generalize_for_value env w s v = Inr w1"
  shows "\<exists>t. strategy w1 = Some t \<and> check_can_handle t v \<and> t \<in> set (generalize s)"
proof -
  from assms obtain t where t: "generalized_strategy_for s v = Some t"
    and sw: "switch_strategy env w t = Inr w1"
    by (auto simp: generalize_for_value_def split: option.splits)
  from t have "check_can_handle t v" and "t \<in> set (generalize s)"
    by (auto simp: generalized_strategy_for_def find_Some_iff)
  moreover from sw have "strategy w1 = Some t"
    by (auto simp: switch_strategy_def split: option.splits sum.splits)
  ultimately show ?thesis by blast
qed

lemma store_strategy_step:
  assumes "strategy w = Some s" and "GenericPointersObject_store env w i v = (w1, e)"
  shows "\<exists>t. strategy w1 = Some t \<and> (t = s \<or> t \<in> set (generalize s))
           \<and> (check_can_handle s v \<longrightarrow> t = s)"
proof (cases "check_can_handle s v")
  case True
  with assms show ?thesis
    by (auto simp: store_handled split: sum.splits)
next
  case False
  show ?thesis
  proof (cases "generalize_for_value env w s v")
    case (Inl err)
    with assms False show ?thesis by (simp add: store_unhandled)
  next
    case (Inr w_new)
    from generalize_for_value_member [OF Inr] obtain t
      where t: "strategy w_new = Some t" "check_can_handle t v" "t \<in> set (generalize s)"
      by blast
    from assms False Inr have "GenericPointersObject_store env w_new i v = (w1, e)"
      by (simp add: store_unhandled)
    with t have "strategy w1 = Some t"
      by (auto simp: store_handled split: sum.splits)
    with t False show ?thesis by simp
  qed
qed

lemma store_sequence_strategy:
  assumes "strategy w = Some s" and "store_sequence env w ops = (w1, e)"
  shows "\<exists>t. strategy w1 = Some t \<and> more_general_or_same s t"
  using assms
proof (induction ops arbitrary: w s)
  case Nil
  then show ?case by (simp add: more_general_or_same_def)
next
  case (Cons op ops)
  obtain i v where op: "op = (i, v)" by (cases op)
  obtain w2 e2 where st: "GenericPointersObject_store env w i v = (w2, e2)"
    by (cases "GenericPointersObject_store env w i v")
  from store_strategy_step [OF Cons.prems(1) st] obtain t
    where t: "strategy w2 = Some t" "t = s \<or> t \<in> set (generalize s)"
    by blast
  then have st_le: "more_general_or_same s t"
    by (auto simp: more_general_or_same_def)
  show ?case
  proof (cases e2)
    case None
    with Cons.prems(2) op st have "store_sequence env w2 ops = (w1, e)" by simp
    from Cons.IH [OF t(1) this] obtain u
      where "strategy w1 = Some u" "more_general_or_same t u" by blast
    with st_le show ?thesis
      by (blast intro: more_general_or_same_trans)
  next
    case (Some err)
    with Cons.prems(2) op st have "w1 = w2" by simp
    with t st_le show ?thesis by simp
  qed
qed

text \<open>
  C3. Whatever the strategy of a generic slotted object is, after any sequence of stores
  (also one that ends in an exception) the object has a strategy that is the same or
  lies above it in the lattice, never one that is strictly more specific; and stores of
  values that the strategy can hold leave the strategy as it is.
\<close>

theorem generalization_monotone:
  assumes "strategy w = Some s"
    and "store_sequence env w ops = (w1, e)"
  shows "\<exists>t. strategy w1 = Some t
           \<and> more_general_or_same s t
           \<and> (t = s \<or> \<not> more_general_or_same t s)
           \<and> ((\<forall>(i, v) \<in> set ops. check_can_handle s v) \<longrightarrow> t = s)"
proof -
  from store_sequence_strategy [OF assms] obtain t
    where t: "strategy w1 = Some t" "more_general_or_same s t" by blast
  have up: "t = s \<or> \<not> more_general_or_same t s"
    using t(2) more_general_or_same_antisym by blast
  have same: "t = s" if "\<forall>(i, v) \<in> set ops. check_can_handle s v"
    using assms that t(1)
  proof (induction ops arbitrary: w)
    case Nil
    then show ?case by simp
  next
    case (Cons op ops)
    obtain i v where op: "op = (i, v)" by (cases op)
    obtain w2 e2 where st: "GenericPointersObject_store env w i v = (w2, e2)"
      by (cases "GenericPointersObject_store env w i v")
    from Cons.prems(3) op have h: "check_can_handle s v" by simp
    from store_strategy_step [OF Cons.prems(1) st] h have s2: "strategy w2 = Some s"
      by auto
    show ?case
    proof (cases e2)
      case None
      with Cons.prems(2) op st have "store_sequence env w2 ops = (w1, e)" by simp
      from Cons.IH [OF s2 this] Cons.prems(3,4) show ?thesis by simp
    next
      case (Some err)
      with Cons.prems(2) op st have "w1 = w2" by simp
      with s2 Cons.prems(4) show ?thesis by simp
    qed
  qed
  from t up same show ?thesis by blast
qed

lemma fresh_three_strategy: "strategy fresh_three = Some AllNilStrategy"
  by (simp add: fresh_three_def GenericPointersObject_init_def empty_storage_type_def
      default_factory_def)

lemma scenario_stores_result:
  "store_sequence collected_nine fresh_three scenario_stores =
     (\<lparr>hash = UNASSIGNED_HASH, w_class = None, strategy = Some ListStrategy,
       storage = ListStorage [W_SmallInt 5, W_Other 7, W_Nil]\<rparr>, None)"
  by code_simp

lemma nil_store_result:
  "store_sequence collected_nine fresh_three [(0, W_Nil)] = (fresh_three, None)"
  by code_simp

theorem generalization_monotone_witness:
  "strategy fresh_three = Some AllNilStrategy
   \<and> strategy (fst (store_sequence collected_nine fresh_three scenario_stores)) = Some ListStrategy
   \<and> more_general_or_same AllNilStrategy ListStrategy
   \<and> \<not> more_general_or_same ListStrategy AllNilStrategy
   \<and> strategy (fst (store_sequence collected_nine fresh_three [(0, W_Nil)])) = Some AllNilStrategy"
proof -
  from generalization_monotone [OF fresh_three_strategy scenario_stores_result]
  have a: "more_general_or_same AllNilStrategy ListStrategy
      \<and> \<not> more_general_or_same ListStrategy AllNilStrategy"
    by auto
  have h: "\<forall>(i, v) \<in> set [(0::int, W_Nil)]. check_can_handle AllNilStrategy v"
    by simp
  from generalization_monotone [OF fresh_three_strategy nil_store_result] h
  have b: "strategy fresh_three = Some AllNilStrategy"
    by auto
  have c: "strategy (fst (store_sequence collected_nine fresh_three scenario_stores)) = Some ListStrategy"
    unfolding scenario_stores_result by simp
  have d: "strategy (fst (store_sequence collected_nine fresh_three [(0, W_Nil)])) = Some AllNilStrategy"
    unfolding nil_store_result using b by simp
  from a b c d show ?thesis by blast
qed

lemma MAXINT_machine: "- (2 ^ 31) \<le> MAXINT \<and> MAXINT < 2 ^ 31"
  by (simp add: MAXINT_def maxint_def)

lemma sint_machine: "- (2 ^ 31) \<le> sint (y :: 32 word) \<and> sint y < 2 ^ 31"
  using sint_ge [of y] sint_lt [of y] by simp

lemma wrap_tagged_int_MAXINT: "wrap_tagged_int MAXINT = W_Nil"
  by (simp add: wrap_tagged_int_def)

lemma wrap_tagged_int_sint:
  "sint (y :: 32 word) \<noteq> MAXINT \<Longrightarrow> wrap_tagged_int (sint y) = W_SmallInt y"
  by (simp add: wrap_tagged_int_def oop_wrap_int_def)

lemma replicate_update_same: "(replicate n x)[i := x] = replicate n x"
  by (induction n arbitrary: i) (simp_all split: nat.splits)

lemma size_presented:
  assumes "belongs s sto"
  shows "storage_size sto = Inr (int (length (presented s sto)))"
  using assms by (cases s; cases sto) (simp_all add: storage_size_def)

lemma strategy_fetch_presented:
  assumes "belongs s sto" and "0 \<le> i" and "i < int (length (presented s sto))"
  shows "strategy_fetch env s sto i = Inr (presented s sto ! nat i)"
  using assms
  by (cases s; cases sto)
    (simp_all add: strategy_fetch_def py_getitem_def py_index_nat)

lemma store_slot_presented:
  assumes "belongs s sto" and "check_can_handle s v"
    and "0 \<le> i" and "i < int (length (presented s sto))"
    and "storage w = sto"
  shows "\<exists>sto1. store_slot env w s i v = Inr sto1 \<and> belongs s sto1
           \<and> presented s sto1 = (presented s sto)[nat i := v]"
proof (cases s)
  case AllNilStrategy
  with assms show ?thesis
    by (cases sto) (simp_all add: store_slot_def Let_def replicate_update_same)
next
  case SmallIntegerOrNilStrategy
  with assms obtain xs where sto: "sto = IntStorage xs"
    by (cases sto) simp_all
  from assms SmallIntegerOrNilStrategy sto
  have r: "\<forall>x \<in> set xs. - (2 ^ 31) \<le> x \<and> x < 2 ^ 31" and i: "0 \<le> i" "i < int (length xs)"
    by simp_all
  from assms(2) SmallIntegerOrNilStrategy
  obtain x where x: "unwrap_tagged_int v = Inr x" "wrap_tagged_int x = v"
    "- (2 ^ 31) \<le> x \<and> x < 2 ^ 31"
    using MAXINT_machine sint_machine
    by (cases v)
      (auto simp: unwrap_tagged_int_def oop_unwrap_int_def wrap_tagged_int_MAXINT
        wrap_tagged_int_sint)
  have "store_slot env w s i v = Inr (IntStorage (xs[nat i := x]))"
    using SmallIntegerOrNilStrategy sto x(1) i assms(5)
    by (simp add: store_slot_def Let_def py_setitem_def py_index_nat)
  moreover have "belongs s (IntStorage (xs[nat i := x]))"
    using SmallIntegerOrNilStrategy r x(3) set_update_subset_insert [of xs "nat i" x]
    by auto
  moreover have "presented s (IntStorage (xs[nat i := x])) = (presented s sto)[nat i := v]"
    using SmallIntegerOrNilStrategy sto x(2) by (simp add: map_update)
  ultimately show ?thesis by blast
next
  case FloatOrNilStrategy
  with assms obtain xs where sto: "sto = FloatStorage xs"
    by (cases sto) simp_all
  from assms FloatOrNilStrategy sto have i: "0 \<le> i" "i < int (length xs)"
    by simp_all
  from assms(2) FloatOrNilStrategy
  obtain x where x: "unwrap_tagged_float v = Inr x" "wrap_tagged_float x = v"
    by (cases v)
      (auto simp: unwrap_tagged_float_def oop_unwrap_float_def wrap_tagged_float_def
        oop_wrap_float_def)
  have "store_slot env w s i v = Inr (FloatStorage (xs[nat i := x]))"
    using FloatOrNilStrategy sto x(1) i assms(5)
    by (simp add: store_slot_def Let_def py_setitem_def py_index_nat)
  moreover have "presented s (FloatStorage (xs[nat i := x])) = (presented s sto)[nat i := v]"
    using FloatOrNilStrategy sto x(2) by (simp add: map_update)
  ultimately show ?thesis using FloatOrNilStrategy by auto
next
  case ListStrategy
  with assms show ?thesis
    by (cases sto) (simp_all add: store_slot_def Let_def py_setitem_def py_index_nat)
next
  case WeakListStrategy
  with assms show ?thesis by simp
next
  case (Shadow k)
  with assms show ?thesis by simp
qed

lemma fetch_slots_presented:
  assumes "belongs s sto" and "\<forall>i \<in> set idx. i < length (presented s sto)"
  shows "fetch_slots env s sto idx = Inr (map (\<lambda>i. presented s sto ! i) idx)"
  using assms(2)
proof (induction idx)
  case Nil
  then show ?case by simp
next
  case (Cons i idx)
  then have "strategy_fetch env s sto (int i) = Inr (presented s sto ! i)"
    using strategy_fetch_presented [OF assms(1), of "int i"] by simp
  with Cons show ?case by simp
qed

lemma fetch_slots_all:
  assumes "belongs s sto"
  shows "fetch_slots env s sto [0..<length (presented s sto)] = Inr (presented s sto)"
  using fetch_slots_presented [OF assms, of "[0..<length (presented s sto)]"]
  by (simp add: map_nth)

lemma initialize_storage_presented:
  assumes "t \<in> {AllNilStrategy, SmallIntegerOrNilStrategy, FloatOrNilStrategy, ListStrategy}"
    and "0 \<le> n"
  shows "belongs t (initialize_storage t n)
       \<and> presented t (initialize_storage t n) = replicate (nat n) W_Nil"
  using assms MAXINT_machine
  by (auto simp: wrap_tagged_int_MAXINT wrap_tagged_float_def)


lemma generalized_in_lattice:
  assumes "generalized_strategy_for s v = Some t"
  shows "t \<in> {SmallIntegerOrNilStrategy, FloatOrNilStrategy, ListStrategy} \<and> check_can_handle t v"
proof -
  from assms have "t \<in> set (generalize s)" and "check_can_handle t v"
    by (auto simp: generalized_strategy_for_def find_Some_iff)
  then show ?thesis by (cases s) auto
qed

lemma generalized_exists:
  assumes "belongs s sto" and "\<not> check_can_handle s v"
  shows "\<exists>t. generalized_strategy_for s v = Some t"
  using assms
  by (cases s; cases sto) (auto simp: generalized_strategy_for_def)

lemma generalized_from_tagged:
  assumes "generalized_strategy_for s v = Some t" and "s \<noteq> AllNilStrategy"
  shows "t = ListStrategy"
  using assms by (cases s) (auto simp: generalized_strategy_for_def)

lemma generalize_presented:
  assumes st: "strategy w = Some s" and b: "belongs s (storage w)"
    and nh: "\<not> check_can_handle s v"
  shows "\<exists>w1 t. generalize_for_value env w s v = Inr w1 \<and> strategy w1 = Some t
           \<and> check_can_handle t v \<and> belongs t (storage w1)
           \<and> presented t (storage w1) = presented s (storage w)"
proof -
  from generalized_exists [OF b nh] obtain t where t: "generalized_strategy_for s v = Some t"
    by blast
  note tl = generalized_in_lattice [OF t]
  have sz: "storage_size (storage w) = Inr (int (length (presented s (storage w))))"
    by (rule size_presented [OF b])
  have "\<exists>sto1. convert_storage_from env w t s = Inr sto1 \<and> belongs t sto1
          \<and> presented t sto1 = presented s (storage w)"
  proof (cases "s = AllNilStrategy")
    case True
    with b obtain n where n: "storage w = SingleValueStrategyStorage n" "0 \<le> n"
      by (cases "storage w") simp_all
    from tl have "t \<in> {AllNilStrategy, SmallIntegerOrNilStrategy, FloatOrNilStrategy, ListStrategy}"
      by auto
    from initialize_storage_presented [OF this n(2)] True n show ?thesis
      by (simp add: convert_storage_from_def storage_size_def)
  next
    case False
    from generalized_from_tagged [OF t False] have tL: "t = ListStrategy" .
    from False tL sz fetch_slots_all [OF b] show ?thesis
      by (simp add: convert_storage_from_def)
  qed
  then obtain sto1 where c: "convert_storage_from env w t s = Inr sto1"
    and b1: "belongs t sto1" and p1: "presented t sto1 = presented s (storage w)"
    by blast
  let ?w1 = "w\<lparr>strategy := Some t, storage := sto1\<rparr>"
  have "generalize_for_value env w s v = Inr ?w1"
    using t st c by (simp add: generalize_for_value_def switch_strategy_def)
  with tl b1 p1 show ?thesis
    by (intro exI [of _ ?w1] exI [of _ t]) simp
qed

lemma store_handled_presented:
  assumes st: "strategy w = Some s" and b: "belongs s (storage w)"
    and h: "check_can_handle s v"
    and i: "0 \<le> i" "i < int (length (presented s (storage w)))"
  shows "\<exists>w1. GenericPointersObject_store env w i v = (w1, None) \<and> strategy w1 = Some s
           \<and> belongs s (storage w1)
           \<and> presented s (storage w1) = (presented s (storage w))[nat i := v]"
proof -
  from store_slot_presented [OF b h i refl] obtain sto1
    where s1: "store_slot env w s i v = Inr sto1" "belongs s sto1"
      "presented s sto1 = (presented s (storage w))[nat i := v]"
    by blast
  have "GenericPointersObject_store env w i v = (w\<lparr>storage := sto1\<rparr>, None)"
    using st h s1(1) by (simp add: store_handled)
  with st s1 show ?thesis
    by (intro exI [of _ "w\<lparr>storage := sto1\<rparr>"]) simp
qed

lemma store_presented:
  assumes st: "strategy w = Some s" and b: "belongs s (storage w)"
    and i: "0 \<le> i" "i < int (length (presented s (storage w)))"
  shows "\<exists>w1 t. GenericPointersObject_store env w i v = (w1, None) \<and> strategy w1 = Some t
           \<and> belongs t (storage w1)
           \<and> presented t (storage w1) = (presented s (storage w))[nat i := v]"
proof (cases "check_can_handle s v")
  case True
  from store_handled_presented [OF st b True i] show ?thesis by blast
next
  case False
  from generalize_presented [OF st b False] obtain w0 t
    where g: "generalize_for_value env w s v = Inr w0" "strategy w0 = Some t"
      "check_can_handle t v" "belongs t (storage w0)"
      "presented t (storage w0) = presented s (storage w)"
    by blast
  from i g(5) have i0: "0 \<le> i" "i < int (length (presented t (storage w0)))"
    by simp_all
  from store_handled_presented [OF g(2) g(4) g(3) i0] obtain w1
    where "GenericPointersObject_store env w0 i v = (w1, None)" "strategy w1 = Some t"
      "belongs t (storage w1)"
      "presented t (storage w1) = (presented t (storage w0))[nat i := v]"
    by blast
  with st False g(1,5) show ?thesis
    by (intro exI [of _ w1] exI [of _ t]) (simp add: store_unhandled)
qed

lemma store_sequence_presented:
  assumes "strategy w = Some s" and "belongs s (storage w)"
    and "\<forall>(i, v) \<in> set ops. 0 \<le> i \<and> i < int (length (presented s (storage w)))"
  shows "\<exists>w1 t. store_sequence env w ops = (w1, None) \<and> strategy w1 = Some t
           \<and> belongs t (storage w1)
           \<and> presented t (storage w1) = last_stored (presented s (storage w)) ops"
  using assms
proof (induction ops arbitrary: w s)
  case Nil
  then show ?case by simp
next
  case (Cons op ops)
  obtain i v where op: "op = (i, v)" by (cases op)
  with Cons.prems(3) have i: "0 \<le> i" "i < int (length (presented s (storage w)))"
    by simp_all
  from store_presented [OF Cons.prems(1,2) i] obtain w0 t
    where s0: "GenericPointersObject_store env w i v = (w0, None)" "strategy w0 = Some t"
      "belongs t (storage w0)"
      "presented t (storage w0) = (presented s (storage w))[nat i := v]"
    by blast
  from Cons.prems(3) s0(4)
  have "\<forall>(i, v) \<in> set ops. 0 \<le> i \<and> i < int (length (presented t (storage w0)))"
    by simp
  from Cons.IH [OF s0(2,3) this] s0(1,4) op show ?case
    by simp
qed

lemma read_back_not_weak: "read_back env False cls i v = v"
  by (simp add: read_back_def split: option.splits)

lemma read_back_nil: "read_back env weak cls i W_Nil = W_Nil"
  by (simp add: read_back_def split: option.splits)

lemma wrap_build:
  "WeakListStrategy_wrap env (ListEntry_build v (i < instsize_of env c))
     = read_back env True (Some c) i v"
  by (simp add: WeakListStrategy_wrap_def ListEntry_build_def ListEntry_get_def read_back_def)

lemma weak_store_step:
  assumes "strategy w = Some WeakListStrategy" and "storage w = WeakStorage es"
    and "w_class w = Some c" and "0 \<le> i" and "i < int (length es)"
  shows "GenericPointersObject_store env w i v
       = (w\<lparr>storage := WeakStorage (es[nat i := ListEntry_build v (i < instsize_of env c)])\<rparr>,
          None)"
proof -
  have "store_slot env w WeakListStrategy i v
      = Inr (WeakStorage (es[nat i := ListEntry_build v (i < instsize_of env c)]))"
    using assms
    by (simp add: store_slot_def WeakListStrategy_unwrap_def
        GenericPointersObject_instsize_def py_setitem_def py_index_nat)
  with assms(1) show ?thesis
    by (simp add: store_handled)
qed

lemma weak_store_sequence:
  assumes "strategy w = Some WeakListStrategy" and "storage w = WeakStorage es"
    and "w_class w = Some c" and "length es = length vs"
    and "\<forall>j < length vs.
           WeakListStrategy_wrap env (es ! j) = read_back env True (Some c) (int j) (vs ! j)"
    and "\<forall>(i, v) \<in> set ops. 0 \<le> i \<and> i < int (length vs)"
  shows "\<exists>w1 es1. store_sequence env w ops = (w1, None)
           \<and> strategy w1 = Some WeakListStrategy \<and> storage w1 = WeakStorage es1
           \<and> length es1 = length vs
           \<and> (\<forall>j < length vs.
                 WeakListStrategy_wrap env (es1 ! j)
                   = read_back env True (Some c) (int j) (last_stored vs ops ! j))"
  using assms
proof (induction ops arbitrary: w es vs)
  case Nil
  then show ?case by simp
next
  case (Cons op ops)
  obtain i v where op: "op = (i, v)" by (cases op)
  with Cons.prems(6) have i: "0 \<le> i" "i < int (length vs)"
    by simp_all
  let ?es = "es[nat i := ListEntry_build v (i < instsize_of env c)]"
  let ?w = "w\<lparr>storage := WeakStorage ?es\<rparr>"
  let ?vs = "vs[nat i := v]"
  have st: "GenericPointersObject_store env w i v = (?w, None)"
    by (rule weak_store_step [OF Cons.prems(1,2,3)]) (use i Cons.prems(4) in simp_all)
  have agree: "\<forall>j < length ?vs.
      WeakListStrategy_wrap env (?es ! j) = read_back env True (Some c) (int j) (?vs ! j)"
  proof (intro allI impI)
    fix j assume j: "j < length ?vs"
    show "WeakListStrategy_wrap env (?es ! j) = read_back env True (Some c) (int j) (?vs ! j)"
    proof (cases "j = nat i")
      case True
      with j i Cons.prems(4) show ?thesis
        by (simp add: wrap_build)
    next
      case False
      with j Cons.prems(5) show ?thesis by simp
    qed
  qed
  have rng: "\<forall>(i, v) \<in> set ops. 0 \<le> i \<and> i < int (length ?vs)"
    using Cons.prems(6) by simp
  have "\<exists>w1 es1. store_sequence env ?w ops = (w1, None)
           \<and> strategy w1 = Some WeakListStrategy \<and> storage w1 = WeakStorage es1
           \<and> length es1 = length ?vs
           \<and> (\<forall>j < length ?vs.
                 WeakListStrategy_wrap env (es1 ! j)
                   = read_back env True (Some c) (int j) (last_stored ?vs ops ! j))"
    by (rule Cons.IH [OF _ _ _ _ agree rng]) (use Cons.prems in simp_all)
  with st op show ?case by simp
qed

lemma length_last_stored: "length (last_stored xs ops) = length xs"
  by (induction xs ops rule: last_stored.induct) simp_all

lemma weak_transparency:
  assumes n: "0 \<le> n"
    and ops: "\<forall>(i, v) \<in> set ops. 0 \<le> i \<and> i < n"
  shows "\<exists>w. store_sequence env (GenericPointersObject_init factory (Some c) n True) ops = (w, None)
           \<and> GenericPointersObject_size w = Inr n
           \<and> (\<forall>i. 0 \<le> i \<and> i < n \<longrightarrow>
                GenericPointersObject_fetch env w i
                  = Inr (read_back env True (Some c) i
                           (last_stored (replicate (nat n) W_Nil) ops ! nat i)))"
proof -
  let ?w0 = "GenericPointersObject_init factory (Some c) n True"
  let ?es = "replicate (nat n) (StrongListEntry W_Nil)"
  let ?vs = "replicate (nat n) W_Nil"
  have s0: "strategy ?w0 = Some WeakListStrategy" "storage ?w0 = WeakStorage ?es"
    "w_class ?w0 = Some c"
    by (simp_all add: GenericPointersObject_init_def empty_storage_type_def)
  have agree: "\<forall>j < length ?vs.
      WeakListStrategy_wrap env (?es ! j) = read_back env True (Some c) (int j) (?vs ! j)"
    by (simp add: WeakListStrategy_wrap_def ListEntry_get_def read_back_nil)
  have rng: "\<forall>(i, v) \<in> set ops. 0 \<le> i \<and> i < int (length ?vs)"
    using ops n by simp
  from weak_store_sequence [OF s0 _ agree rng] obtain w es1
    where r: "store_sequence env ?w0 ops = (w, None)" "strategy w = Some WeakListStrategy"
      "storage w = WeakStorage es1" "length es1 = length ?vs"
      "\<forall>j < length ?vs. WeakListStrategy_wrap env (es1 ! j)
          = read_back env True (Some c) (int j) (last_stored ?vs ops ! j)"
    by auto
  have sz: "GenericPointersObject_size w = Inr n"
    using r(2,3,4) n by (simp add: GenericPointersObject_size_def storage_size_def)
  have f: "GenericPointersObject_fetch env w i
             = Inr (read_back env True (Some c) i (last_stored ?vs ops ! nat i))"
    if "0 \<le> i \<and> i < n" for i
  proof -
    from that have j: "nat i < length ?vs" "int (nat i) = i" by simp_all
    with r(5) have "WeakListStrategy_wrap env (es1 ! nat i)
        = read_back env True (Some c) i (last_stored ?vs ops ! nat i)"
      by metis
    with that r(2,3,4) show ?thesis
      by (simp add: GenericPointersObject_fetch_def strategy_fetch_def py_getitem_def py_index_nat)
  qed
  from r(1) sz f show ?thesis by blast
qed

lemma strong_transparency:
  assumes n: "0 \<le> n"
    and ops: "\<forall>(i, v) \<in> set ops. 0 \<le> i \<and> i < n"
  shows "\<exists>w. store_sequence env (GenericPointersObject_init factory cls n False) ops = (w, None)
           \<and> GenericPointersObject_size w = Inr n
           \<and> (\<forall>i. 0 \<le> i \<and> i < n \<longrightarrow>
                GenericPointersObject_fetch env w i
                  = Inr (last_stored (replicate (nat n) W_Nil) ops ! nat i))"
proof -
  let ?w0 = "GenericPointersObject_init factory cls n False"
  obtain s where s: "strategy ?w0 = Some s"
    and sl: "s \<in> {AllNilStrategy, SmallIntegerOrNilStrategy, FloatOrNilStrategy, ListStrategy}"
    and sto: "storage ?w0 = initialize_storage s n"
    by (simp add: GenericPointersObject_init_def empty_storage_type_def Let_def)
  from initialize_storage_presented [OF sl n] sto
  have b: "belongs s (storage ?w0)" and p: "presented s (storage ?w0) = replicate (nat n) W_Nil"
    by simp_all
  from ops p n
  have "\<forall>(i, v) \<in> set ops. 0 \<le> i \<and> i < int (length (presented s (storage ?w0)))"
    by simp
  from store_sequence_presented [OF s b this, of env] p obtain w t
    where r: "store_sequence env ?w0 ops = (w, None)" "strategy w = Some t" "belongs t (storage w)"
      "presented t (storage w) = last_stored (replicate (nat n) W_Nil) ops"
    by auto
  have len: "length (last_stored (replicate (nat n) W_Nil) ops) = nat n"
    by (simp add: length_last_stored)
  have sz: "GenericPointersObject_size w = Inr n"
    using size_presented [OF r(3)] r(2,4) len n
    by (simp add: GenericPointersObject_size_def)
  have f: "GenericPointersObject_fetch env w i
             = Inr (last_stored (replicate (nat n) W_Nil) ops ! nat i)"
    if "0 \<le> i \<and> i < n" for i
    using strategy_fetch_presented [OF r(3), of i] r(2,4) len that
    by (simp add: GenericPointersObject_fetch_def)
  from r(1) sz f show ?thesis by blast
qed

text \<open>
  A weak object does not read back every value it was given. In the new weak object of
  size 4 the reference to the object at 9 was stored at the index 1, beyond the one
  instance variable; once the collector has reclaimed that object, \<^verbatim>\<open>fetch(1)\<close>
  returns nil. And a weak object without a class takes no store at all: building the
  entry asks for the instance size of the class, and \<^verbatim>\<open>class_shadow\<close> asserts that
  there is a class.
\<close>

theorem weak_slot_collected_counterexample:
  "snd (store_sequence collected_nine fresh_weak weak_stores) = None
   \<and> last_stored (replicate 4 W_Nil) weak_stores ! 1 = W_Other 9
   \<and> GenericPointersObject_fetch collected_nine
        (fst (store_sequence collected_nine fresh_weak weak_stores)) 1 = Inr W_Nil
   \<and> store_sequence collected_nine (GenericPointersObject_init default_factory None 4 True)
        weak_stores
      = (GenericPointersObject_init default_factory None 4 True, Some AssertionError)"
  by code_simp

text \<open>
  C1, as the code has it. A new generic slotted object of size \<open>n\<close>, weak or not (a weak
  one that is stored into has a class), takes every sequence of stores at indices within
  \<open>[0, n)\<close> without an exception, whichever strategies it goes through; afterwards its
  size is \<open>n\<close>, and \<^verbatim>\<open>fetch\<close> returns at every index the last value stored there, or nil
  if nothing was stored there, with one exception: in a weak object, a value that is not
  held strongly (it was stored beyond the instance variables and is neither a small
  integer nor a byte object) reads back as nil once the collector has reclaimed it. For
  an object that is not weak, \<^verbatim>\<open>fetch\<close> returns exactly the last value stored.
\<close>

theorem strategy_transparency:
  assumes n: "0 \<le> n"
    and ops: "\<forall>(i, v) \<in> set ops. 0 \<le> i \<and> i < n"
    and cls: "weak \<and> ops \<noteq> [] \<longrightarrow> cls \<noteq> None"
  shows "\<exists>w. store_sequence env (GenericPointersObject_init factory cls n weak) ops = (w, None)
           \<and> GenericPointersObject_size w = Inr n
           \<and> (\<forall>i. 0 \<le> i \<and> i < n \<longrightarrow>
                GenericPointersObject_fetch env w i
                  = Inr (read_back env weak cls i
                           (last_stored (replicate (nat n) W_Nil) ops ! nat i))
                \<and> (\<not> weak \<longrightarrow>
                     GenericPointersObject_fetch env w i
                       = Inr (last_stored (replicate (nat n) W_Nil) ops ! nat i)))"
proof (cases weak)
  case False
  from strong_transparency [OF n ops, of env factory cls] False show ?thesis
    by (simp add: read_back_not_weak)
next
  case True
  show ?thesis
  proof (cases cls)
    case (Some c)
    from weak_transparency [OF n ops, of env factory c] True Some show ?thesis
      by simp
  next
    case None
    with True cls have e: "ops = []" by auto
    let ?w0 = "GenericPointersObject_init factory None n True"
    have sz: "GenericPointersObject_size ?w0 = Inr n"
      using n
      by (simp add: GenericPointersObject_size_def GenericPointersObject_init_def
          empty_storage_type_def storage_size_def)
    have f: "GenericPointersObject_fetch env ?w0 i = Inr W_Nil" if "0 \<le> i \<and> i < n" for i
      using that
      by (simp add: GenericPointersObject_fetch_def GenericPointersObject_init_def
          empty_storage_type_def strategy_fetch_def py_getitem_def py_index_nat
          WeakListStrategy_wrap_def ListEntry_get_def)
    from sz f e True None show ?thesis
      by (simp add: read_back_def)
  qed
qed

lemma scenario_stores_last:
  "last_stored (replicate (nat 3) W_Nil) scenario_stores = [W_SmallInt 5, W_Other 7, W_Nil]"
  by code_simp

lemma weak_stores_last:
  "last_stored (replicate (nat 4) W_Nil) weak_stores
     = [W_Other 7, W_Other 9, W_Other 8, W_SmallInt 5]"
  by code_simp

theorem strategy_transparency_witness:
  "GenericPointersObject_fetch collected_nine
       (fst (store_sequence collected_nine fresh_three scenario_stores)) 0 = Inr (W_SmallInt 5)
   \<and> GenericPointersObject_fetch collected_nine
       (fst (store_sequence collected_nine fresh_three scenario_stores)) 1 = Inr (W_Other 7)
   \<and> GenericPointersObject_fetch collected_nine
       (fst (store_sequence collected_nine fresh_three scenario_stores)) 2 = Inr W_Nil
   \<and> GenericPointersObject_fetch collected_nine
       (fst (store_sequence collected_nine fresh_weak weak_stores)) 0 = Inr (W_Other 7)
   \<and> GenericPointersObject_fetch collected_nine
       (fst (store_sequence collected_nine fresh_weak weak_stores)) 1 = Inr W_Nil
   \<and> GenericPointersObject_fetch collected_nine
       (fst (store_sequence collected_nine fresh_weak weak_stores)) 2 = Inr (W_Other 8)
   \<and> GenericPointersObject_fetch collected_nine
       (fst (store_sequence collected_nine fresh_weak weak_stores)) 3 = Inr (W_SmallInt 5)"
proof -
  have h: "\<forall>(i, v) \<in> set scenario_stores. 0 \<le> i \<and> i < 3"
    by (simp add: scenario_stores_def)
  from strategy_transparency [OF _ h, of False None collected_nine default_factory]
  obtain w where w: "store_sequence collected_nine fresh_three scenario_stores = (w, None)"
    and f: "\<forall>i. 0 \<le> i \<and> i < 3 \<longrightarrow>
              GenericPointersObject_fetch collected_nine w i
                = Inr (last_stored (replicate (nat 3) W_Nil) scenario_stores ! nat i)"
    unfolding fresh_three_def by auto
  have hw: "\<forall>(i, v) \<in> set weak_stores. 0 \<le> i \<and> i < 4"
    by (simp add: weak_stores_def)
  from strategy_transparency [OF _ hw, of True "Some (W_Other 1)" collected_nine default_factory]
  obtain w' where w': "store_sequence collected_nine fresh_weak weak_stores = (w', None)"
    and f': "\<forall>i. 0 \<le> i \<and> i < 4 \<longrightarrow>
              GenericPointersObject_fetch collected_nine w' i
                = Inr (read_back collected_nine True (Some (W_Other 1)) i
                         (last_stored (replicate (nat 4) W_Nil) weak_stores ! nat i))"
    unfolding fresh_weak_def by auto
  note l = scenario_stores_last weak_stores_last
  have rb: "read_back collected_nine True (Some (W_Other 1)) 0 (W_Other 7) = W_Other 7"
    "read_back collected_nine True (Some (W_Other 1)) 1 (W_Other 9) = W_Nil"
    "read_back collected_nine True (Some (W_Other 1)) 2 (W_Other 8) = W_Other 8"
    "read_back collected_nine True (Some (W_Other 1)) 3 (W_SmallInt 5) = W_SmallInt 5"
    by (simp_all add: read_back_def collected_nine_def is_strong_anyway_def)
  from f [rule_format, of 0] f [rule_format, of 1] f [rule_format, of 2]
    f' [rule_format, of 0] f' [rule_format, of 1] f' [rule_format, of 2] f' [rule_format, of 3]
    w w' l rb
  show ?thesis by (simp add: numeral_3_eq_3)
qed

end
